theory Spec2Isabelle
  imports Main "HOL-Library.Sublist" "HOL-Library.Word"
begin

section \<open>Go values\<close>

text \<open>
  A Go \<open>string\<close> is a sequence of bytes, here a \<open>char list\<close>. An \<open>error\<close> value is
  identified with the text its \<open>Error()\<close> method prints, which is all the server ever does
  with one (\<open>%v\<close>, \<open>%w\<close>). A Go slice is \<open>nil\<close> or a sequence: a slice whose nil-ness the
  code inspects is an \<open>option\<close> (\<open>None\<close> is \<open>nil\<close>).
\<close>

type_synonym error = string

text \<open>A \<open>time.Time\<close>: an instant (nanoseconds since the epoch) and a location.\<close>

datatype Location = UTC | Local | FixedZone string int

record Time =
  wall :: int
  loc :: Location

text \<open>
  The dynamic values a \<open>database/sql\<close> driver hands to \<open>Scan\<close> through an
  \<open>*interface{}\<close> destination, and the values of a result row. \<open>Float64\<close> carries the
  IEEE bit pattern; \<open>Other\<close> stands for every dynamic type not listed.
\<close>

datatype gvalue =
    Nil
  | Bytes string
  | TimeV Time
  | String string
  | Int64 "64 word"
  | Float64 "64 word"
  | Bool bool
  | Other string

text \<open>
  The statements of \<open>vitess.io/vitess/go/vt/sqlparser\<close>, by dynamic type. The package is
  not part of the repository; the constructors name the implementers of its
  \<open>Statement\<close> interface the classifier distinguishes, then some of the others, and
  \<open>OtherStatement\<close> for the rest. The interface \<open>sqlparser.Explain\<close> is implemented by
  \<open>*ExplainStmt\<close> and \<open>*ExplainTab\<close>.
\<close>

datatype statement =
    Select
  | UnionStmt
  | Show
  | ExplainStmt
  | ExplainTab
  | VExplainStmt
  | Insert
  | Update
  | Delete
  | SetStmt
  | Use
  | Begin
  | Commit
  | Rollback
  | CreateTable
  | AlterTable
  | DropTable
  | TruncateTable
  | Load
  | CallProc
  | LockTables
  | OtherStatement string

record URL =
  Scheme :: string
  Host :: string
  Path :: string

record QueryInput =
  Query :: string

record QueryOutput =
  Columns :: "string list option"
  Rows :: "gvalue list list option"
  RowCount :: int
  Truncated :: bool

text \<open>
  The library functions the server calls and the repository does not define. The three
  \<open>unicode_\<close> fields are the slow paths of \<open>strings.ToLower\<close> and \<open>strings.TrimSpace\<close>,
  taken only on text with a byte \<open>\<ge> 0x80\<close>; \<open>sqlparser_New\<close> is the result of
  \<open>sqlparser.New(sqlparser.Options{})\<close>, a parser being its \<open>Parse\<close> method.
\<close>

record golib =
  unicode_ToLower :: "string \<Rightarrow> string"
  unicode_TrimFunc :: "string \<Rightarrow> string"
  unicode_TrimRightFunc :: "string \<Rightarrow> string"
  sqlparser_New :: "error + (string \<Rightarrow> error + statement)"
  url_Parse :: "string \<Rightarrow> error + URL"
  time_Format :: "Time \<Rightarrow> string \<Rightarrow> string"
  json_Marshal :: "QueryOutput \<Rightarrow> error + string"

section \<open>Package strings\<close>

definition RuneSelf :: nat where
  "RuneSelf = 128"

definition isASCII :: "string \<Rightarrow> bool" where
  "isASCII s = list_all (\<lambda>c. (of_char c :: nat) < RuneSelf) s"

definition isUpperASCII :: "char \<Rightarrow> bool" where
  "isUpperASCII c = (65 \<le> (of_char c :: nat) \<and> (of_char c :: nat) \<le> 90)"

definition lowerASCII :: "char \<Rightarrow> char" where
  "lowerASCII c = (if isUpperASCII c then char_of ((of_char c :: nat) + 32) else c)"

text \<open>\<open>strings.ToLower\<close>: bytewise on ASCII-only text, rune by rune otherwise.\<close>

definition ToLower :: "golib \<Rightarrow> string \<Rightarrow> string" where
  "ToLower lib s = (if isASCII s then map lowerASCII s else unicode_ToLower lib s)"

definition asciiSpace :: "char \<Rightarrow> bool" where
  "asciiSpace c = ((9 \<le> (of_char c :: nat) \<and> (of_char c :: nat) \<le> 13) \<or> (of_char c :: nat) = 32)"

text \<open>
  \<open>strings.TrimSpace\<close>. The first loop advances \<open>start\<close> over ASCII space and hands the
  rest to \<open>TrimFunc\<close> at a non-ASCII byte; the second moves \<open>stop\<close> back from the end (its
  argument here is the reversed text \<open>s[start:stop]\<close>) and hands over to
  \<open>TrimRightFunc\<close> at a non-ASCII byte.
\<close>

fun trimStop :: "golib \<Rightarrow> string \<Rightarrow> string" where
  "trimStop lib [] = []"
| "trimStop lib (c # cs) =
     (if RuneSelf \<le> (of_char c :: nat) then unicode_TrimRightFunc lib (rev (c # cs))
      else if asciiSpace c then trimStop lib cs
      else rev (c # cs))"

fun TrimSpace :: "golib \<Rightarrow> string \<Rightarrow> string" where
  "TrimSpace lib [] = []"
| "TrimSpace lib (c # cs) =
     (if RuneSelf \<le> (of_char c :: nat) then unicode_TrimFunc lib (c # cs)
      else if asciiSpace c then TrimSpace lib cs
      else trimStop lib (rev (c # cs)))"

text \<open>\<open>strings.Contains\<close>: the substring occurs at some offset.\<close>

fun Contains :: "string \<Rightarrow> string \<Rightarrow> bool" where
  "Contains [] substr = (substr = [])"
| "Contains (c # cs) substr = (prefix substr (c # cs) \<or> Contains cs substr)"

definition TrimPrefix :: "string \<Rightarrow> string \<Rightarrow> string" where
  "TrimPrefix s p = (if prefix p s then drop (length p) s else s)"

text \<open>\<open>strings.Split\<close> with a one-byte separator.\<close>

fun Split :: "string \<Rightarrow> char \<Rightarrow> string list" where
  "Split [] sep = [[]]"
| "Split (c # cs) sep =
     (if c = sep then [] # Split cs sep
      else (case Split cs sep of
              [] \<Rightarrow> [[c]]
            | p # ps \<Rightarrow> (c # p) # ps))"

section \<open>The statement classifier\<close>

fun normalizeList :: "golib \<Rightarrow> string list \<Rightarrow> string list" where
  "normalizeList lib [] = []"
| "normalizeList lib (v # values) =
     (let trimmed = TrimSpace lib (ToLower lib v)
      in if trimmed \<noteq> [] then trimmed # normalizeList lib values
         else normalizeList lib values)"

text \<open>The loop over \<open>denySubstrings\<close>: true when some fragment makes it return.\<close>

fun denied :: "string \<Rightarrow> string list \<Rightarrow> bool" where
  "denied normalized [] = False"
| "denied normalized (fragment # rest) =
     (if fragment \<noteq> [] \<and> Contains normalized fragment then True
      else denied normalized rest)"

text \<open>The type switch on the parsed statement.\<close>

fun readOnlyKind :: "statement \<Rightarrow> bool" where
  "readOnlyKind Select = True"
| "readOnlyKind UnionStmt = True"
| "readOnlyKind Show = True"
| "readOnlyKind ExplainStmt = True"
| "readOnlyKind ExplainTab = True"
| "readOnlyKind _ = False"

definition isReadOnlyQuery :: "golib \<Rightarrow> string \<Rightarrow> string list \<Rightarrow> bool" where
  "isReadOnlyQuery lib query denySubstrings =
     (let normalized = TrimSpace lib (ToLower lib query)
      in if normalized = [] then False
         else if Contains normalized '';'' then False
         else if denied normalized denySubstrings then False
         else (case sqlparser_New lib of
                 Inl err \<Rightarrow> False
               | Inr parser \<Rightarrow>
                   (case parser query of
                      Inl err \<Rightarrow> False
                    | Inr stmt \<Rightarrow> readOnlyKind stmt)))"

section \<open>Configuration and handler state\<close>

text \<open>
  \<open>Config\<close>, its two nested structs flattened. The numbers are Go \<open>int\<close>s; they are only
  compared with 0 and with the row counter, which never passes \<open>maxRows\<close>, so no
  arithmetic on them can overflow and they are integers here.
\<close>

record Config =
  Server_Name :: string
  Server_Version :: string
  DSN :: string
  MaxOpenConns :: int
  MaxIdleConns :: int
  ConnMaxLifetimeSeconds :: int
  ConnMaxIdleTimeSeconds :: int
  QueryTimeoutSeconds :: int
  AllowStatementPrefixes :: "string list"
  DenySubstrings :: "string list"
  MaxRows :: int

text \<open>
  What the database does in one run of a handler, call by call: every call below is made
  at most once per run. \<open>None\<close> is a nil error. \<open>rows_Next\<close> lists the rows for which
  \<open>rows.Next()\<close> reports true, each with what \<open>Scan\<close> would find (an error, or the
  driver's values); after them \<open>Next\<close> reports false. \<open>rows_Err\<close> is what \<open>rows.Err()\<close>
  reports once the loop is left. The per-call deadline is real time and is not modelled:
  its expiry is an error outcome of one of these calls.
\<close>

record sql_Rows =
  rows_Columns :: "error + string list option"
  rows_Next :: "(error + gvalue list) list"
  rows_Err :: "error option"

record sql_DB =
  db_Conn :: "error option"
  conn_BeginTx :: "error option"
  tx_QueryContext :: "string \<Rightarrow> error + sql_Rows"
  tx_Commit :: "error option"

text \<open>The calls a handler makes on the database, in order, deferred closes included.\<close>

datatype db_event =
    AcquireConn
  | BeginReadOnlyTx
  | RunStatement string
  | TxRollback
  | TxCommit
  | RowsClose
  | ConnClose

record queryHandler =
  db :: sql_DB
  config :: Config
  denySubstrings :: "string list"

text \<open>
  \<open>map[string]any\<close> with the four fixed keys \<open>columns\<close>, \<open>rows\<close>, \<open>rowCount\<close>,
  \<open>truncated\<close>; the two slices are built with \<open>make\<close> and are never nil.
\<close>

record structured =
  sc_columns :: "string list"
  sc_rows :: "gvalue list list"
  sc_rowCount :: int
  sc_truncated :: bool

record CallToolResult =
  Content :: "string list"
  StructuredContent :: structured
  IsError :: bool

definition queryOutputToStructuredContent :: "QueryOutput \<Rightarrow> structured" where
  "queryOutputToStructuredContent output =
     \<lparr>sc_columns = (case Columns output of None \<Rightarrow> [] | Some cols \<Rightarrow> cols),
      sc_rows = (case Rows output of None \<Rightarrow> [] | Some rs \<Rightarrow> rs),
      sc_rowCount = RowCount output,
      sc_truncated = Truncated output\<rparr>"

text \<open>The argument is the message \<open>fmt.Sprintf(format, args...)\<close> has built.\<close>

definition toolErrorResultf :: "string \<Rightarrow> CallToolResult \<times> QueryOutput" where
  "toolErrorResultf msg =
     (let output = \<lparr>Columns = Some [], Rows = Some [], RowCount = 0, Truncated = False\<rparr>
      in (\<lparr>Content = [msg],
           StructuredContent = queryOutputToStructuredContent output,
           IsError = True\<rparr>, output))"

section \<open>Value normalization\<close>

definition RFC3339Nano :: string where
  "RFC3339Nano = ''2006-01-02T15:04:05.999999999Z07:00''"

definition time_UTC :: "Time \<Rightarrow> Time" where
  "time_UTC t = t\<lparr>loc := UTC\<rparr>"

fun normalizeValue :: "golib \<Rightarrow> gvalue \<Rightarrow> gvalue" where
  "normalizeValue lib Nil = Nil"
| "normalizeValue lib (Bytes v) = String v"
| "normalizeValue lib (TimeV v) = String (time_Format lib (time_UTC v) RFC3339Nano)"
| "normalizeValue lib v = v"

section \<open>The bounded executor\<close>

text \<open>Decimal digits of a number, for the one message that prints lengths.\<close>

fun itoa :: "nat \<Rightarrow> string" where
  "itoa n = (if n < 10 then [char_of (48 + n)] else itoa (n div 10) @ [char_of (48 + n mod 10)])"

text \<open>
  \<open>rows.Scan(dest...)\<close> with \<open>n\<close> destinations of type \<open>*interface{}\<close>: it fails when the
  row does not have \<open>n\<close> values and stores the driver's values otherwise.
\<close>

definition rows_Scan :: "nat \<Rightarrow> error + gvalue list \<Rightarrow> error + gvalue list" where
  "rows_Scan n r =
     (case r of
        Inl err \<Rightarrow> Inl err
      | Inr vals \<Rightarrow>
          if length vals \<noteq> n
          then Inl (''sql: expected '' @ itoa (length vals) @
                    '' destination arguments in Scan, not '' @ itoa n)
          else Inr vals)"

text \<open>The row limit both executors compute from \<open>config.MySQL.MaxRows\<close>.\<close>

definition maxRowsOf :: "Config \<Rightarrow> int" where
  "maxRowsOf cfg = (if MaxRows cfg \<le> 0 then 1000 else MaxRows cfg)"

text \<open>
  The row loop, the same in \<open>runQuery\<close> and \<open>runQueryForResource\<close>. The list holds the
  rows \<open>rows.Next()\<close> still announces; the result is the scan error that left the loop, or
  \<open>results\<close>, \<open>rowCount\<close> and \<open>truncated\<close> at its end.
\<close>

fun rowLoop :: "golib \<Rightarrow> nat \<Rightarrow> int \<Rightarrow> (error + gvalue list) list \<Rightarrow> gvalue list list \<Rightarrow> int
    \<Rightarrow> error + (gvalue list list \<times> int \<times> bool)" where
  "rowLoop lib ncols maxRows [] results rowCount = Inr (results, rowCount, False)"
| "rowLoop lib ncols maxRows (r # rest) results rowCount =
     (if rowCount \<ge> maxRows then Inr (results, rowCount, True)
      else (case rows_Scan ncols r of
              Inl err \<Rightarrow> Inl err
            | Inr values \<Rightarrow>
                rowLoop lib ncols maxRows rest
                  (results @ [map (normalizeValue lib) values]) (rowCount + 1)))"

definition toolFailure :: "string \<Rightarrow> CallToolResult \<times> QueryOutput \<times> error option" where
  "toolFailure msg = (let (result, output) = toolErrorResultf msg in (result, output, None))"

text \<open>
  The formats of the messages \<open>runQuery\<close> passes to \<open>toolErrorResultf\<close>, each up to its
  \<open>%v\<close>.
\<close>

definition failure_prefixes :: "string list" where
  "failure_prefixes =
     [''only read-only queries are allowed'', ''failed to acquire connection: '',
      ''failed to start read-only transaction: '', ''query failed: '',
      ''failed to fetch columns: '', ''failed to read row: '', ''row iteration failed: '',
      ''failed to finish transaction: '']"

text \<open>
  \<open>runQuery\<close>. Each \<open>return\<close> of the source is one branch, with the database calls made
  up to it; \<open>columns\<close> and \<open>results\<close> are not nil when the output is built, so the two
  nil checks on the output change nothing and are left out.
\<close>

definition runQuery :: "golib \<Rightarrow> queryHandler \<Rightarrow> QueryInput
    \<Rightarrow> (CallToolResult \<times> QueryOutput \<times> error option) \<times> db_event list" where
  "runQuery lib h input =
     (if \<not> isReadOnlyQuery lib (Query input) (denySubstrings h)
      then (toolFailure ''only read-only queries are allowed'', [])
      else (case db_Conn (db h) of
        Some err \<Rightarrow> (toolFailure (''failed to acquire connection: '' @ err), [AcquireConn])
      | None \<Rightarrow> (case conn_BeginTx (db h) of
        Some err \<Rightarrow>
          (toolFailure (''failed to start read-only transaction: '' @ err),
           [AcquireConn, BeginReadOnlyTx, ConnClose])
      | None \<Rightarrow> (case tx_QueryContext (db h) (Query input) of
        Inl err \<Rightarrow>
          (toolFailure (''query failed: '' @ err),
           [AcquireConn, BeginReadOnlyTx, RunStatement (Query input), TxRollback, ConnClose])
      | Inr rows \<Rightarrow> (case rows_Columns rows of
        Inl err \<Rightarrow>
          (toolFailure (''failed to fetch columns: '' @ err),
           [AcquireConn, BeginReadOnlyTx, RunStatement (Query input), TxRollback,
            RowsClose, ConnClose])
      | Inr cols \<Rightarrow>
          (let columns = (case cols of None \<Rightarrow> [] | Some cs \<Rightarrow> cs);
               maxRows = maxRowsOf (config h)
           in (case rowLoop lib (length columns) maxRows (rows_Next rows) [] 0 of
             Inl err \<Rightarrow>
               (toolFailure (''failed to read row: '' @ err),
                [AcquireConn, BeginReadOnlyTx, RunStatement (Query input), TxRollback,
                 RowsClose, ConnClose])
           | Inr (results, rowCount, truncated) \<Rightarrow> (case rows_Err rows of
             Some err \<Rightarrow>
               (toolFailure (''row iteration failed: '' @ err),
                [AcquireConn, BeginReadOnlyTx, RunStatement (Query input), TxRollback,
                 RowsClose, ConnClose])
           | None \<Rightarrow> (case tx_Commit (db h) of
             Some err \<Rightarrow>
               (toolFailure (''failed to finish transaction: '' @ err),
                [AcquireConn, BeginReadOnlyTx, RunStatement (Query input), TxCommit,
                 RowsClose, ConnClose])
           | None \<Rightarrow>
               (let output = \<lparr>Columns = Some columns, Rows = Some results,
                               RowCount = rowCount, Truncated = truncated\<rparr>
                in ((\<lparr>Content = [''ok''],
                      StructuredContent = queryOutputToStructuredContent output,
                      IsError = False\<rparr>, output, None),
                    [AcquireConn, BeginReadOnlyTx, RunStatement (Query input), TxCommit,
                     RowsClose, ConnClose])))))))))))"

text \<open>
  The same steps for the resource path; a failure is a Go error beside the zero
  \<open>QueryOutput{}\<close>, whose slices are nil.
\<close>

definition resourceFailure :: "string \<Rightarrow> QueryOutput \<times> error option" where
  "resourceFailure msg =
     (\<lparr>Columns = None, Rows = None, RowCount = 0, Truncated = False\<rparr>, Some msg)"

definition runQueryForResource :: "golib \<Rightarrow> queryHandler \<Rightarrow> string
    \<Rightarrow> (QueryOutput \<times> error option) \<times> db_event list" where
  "runQueryForResource lib h query =
     (if \<not> isReadOnlyQuery lib query (denySubstrings h)
      then (resourceFailure ''only read-only queries are allowed'', [])
      else (case db_Conn (db h) of
        Some err \<Rightarrow> (resourceFailure (''failed to acquire connection: '' @ err), [AcquireConn])
      | None \<Rightarrow> (case conn_BeginTx (db h) of
        Some err \<Rightarrow>
          (resourceFailure (''failed to start read-only transaction: '' @ err),
           [AcquireConn, BeginReadOnlyTx, ConnClose])
      | None \<Rightarrow> (case tx_QueryContext (db h) query of
        Inl err \<Rightarrow>
          (resourceFailure (''query failed: '' @ err),
           [AcquireConn, BeginReadOnlyTx, RunStatement query, TxRollback, ConnClose])
      | Inr rows \<Rightarrow> (case rows_Columns rows of
        Inl err \<Rightarrow>
          (resourceFailure (''failed to fetch columns: '' @ err),
           [AcquireConn, BeginReadOnlyTx, RunStatement query, TxRollback,
            RowsClose, ConnClose])
      | Inr cols \<Rightarrow>
          (let columns = (case cols of None \<Rightarrow> [] | Some cs \<Rightarrow> cs);
               maxRows = maxRowsOf (config h)
           in (case rowLoop lib (length columns) maxRows (rows_Next rows) [] 0 of
             Inl err \<Rightarrow>
               (resourceFailure (''failed to read row: '' @ err),
                [AcquireConn, BeginReadOnlyTx, RunStatement query, TxRollback,
                 RowsClose, ConnClose])
           | Inr (results, rowCount, truncated) \<Rightarrow> (case rows_Err rows of
             Some err \<Rightarrow>
               (resourceFailure (''row iteration failed: '' @ err),
                [AcquireConn, BeginReadOnlyTx, RunStatement query, TxRollback,
                 RowsClose, ConnClose])
           | None \<Rightarrow> (case tx_Commit (db h) of
             Some err \<Rightarrow>
               (resourceFailure (''failed to finish transaction: '' @ err),
                [AcquireConn, BeginReadOnlyTx, RunStatement query, TxCommit,
                 RowsClose, ConnClose])
           | None \<Rightarrow>
               ((\<lparr>Columns = Some columns, Rows = Some results,
                   RowCount = rowCount, Truncated = truncated\<rparr>, None),
                [AcquireConn, BeginReadOnlyTx, RunStatement query, TxCommit,
                 RowsClose, ConnClose]))))))))))"

section \<open>The resource router\<close>

definition identChar :: "char \<Rightarrow> bool" where
  "identChar c =
     (let n = (of_char c :: nat)
      in (65 \<le> n \<and> n \<le> 90) \<or> (97 \<le> n \<and> n \<le> 122) \<or> (48 \<le> n \<and> n \<le> 57) \<or> n = 95)"

text \<open>\<open>mysqlIdentifierRE.MatchString\<close> for the pattern \<open>^[A-Za-z0-9_]+$\<close>.\<close>

definition mysqlIdentifierRE :: "string \<Rightarrow> bool" where
  "mysqlIdentifierRE s = (s \<noteq> [] \<and> list_all identChar s)"

datatype resource_error = ResourceNotFoundError string | PlainError error

record ResourceContents =
  URI :: string
  MIMEType :: string
  Text :: string

record ReadResourceResult =
  Contents :: "ResourceContents list"

definition pathPartsOf :: "URL \<Rightarrow> string list" where
  "pathPartsOf u =
     (let trimmedPath = TrimPrefix (Path u) ''/''
      in if trimmedPath \<noteq> [] then Split trimmedPath (CHR ''/'') else [])"

text \<open>
  \<open>readResource\<close> up to the call of \<open>runQueryForResource\<close>: the error it returns before
  any query is built, or the query text.
\<close>

definition resourceQuery :: "golib \<Rightarrow> string \<Rightarrow> resource_error + string" where
  "resourceQuery lib uri =
     (case url_Parse lib uri of
        Inl err \<Rightarrow> Inl (PlainError err)
      | Inr u \<Rightarrow>
          if ToLower lib (Scheme u) \<noteq> ''mysql'' then Inl (ResourceNotFoundError uri)
          else
            (let host = ToLower lib (Host u);
                 pathParts = pathPartsOf u
             in if host = ''databases'' then
                  (if length pathParts \<noteq> 0 then Inl (ResourceNotFoundError uri)
                   else Inr ''SHOW DATABASES'')
                else if host = ''tables'' then
                  (if length pathParts \<noteq> 1 then Inl (ResourceNotFoundError uri)
                   else (let db = pathParts ! 0
                         in if \<not> mysqlIdentifierRE db then Inl (ResourceNotFoundError uri)
                            else Inr (''SHOW TABLES FROM `'' @ db @ ''`'')))
                else if host = ''schema'' then
                  (if length pathParts \<noteq> 2 then Inl (ResourceNotFoundError uri)
                   else (let db = pathParts ! 0; table = pathParts ! 1
                         in if \<not> mysqlIdentifierRE db \<or> \<not> mysqlIdentifierRE table
                            then Inl (ResourceNotFoundError uri)
                            else Inr (''DESCRIBE `'' @ db @ ''`.`'' @ table @ ''`'')))
                else Inl (ResourceNotFoundError uri)))"

definition readResource :: "golib \<Rightarrow> queryHandler \<Rightarrow> string
    \<Rightarrow> (resource_error + ReadResourceResult) \<times> db_event list" where
  "readResource lib h uri =
     (case resourceQuery lib uri of
        Inl e \<Rightarrow> (Inl e, [])
      | Inr query \<Rightarrow>
          (case runQueryForResource lib h query of
             ((out, Some err), events) \<Rightarrow> (Inl (PlainError err), events)
           | ((out, None), events) \<Rightarrow>
               (case json_Marshal lib out of
                  Inl err \<Rightarrow> (Inl (PlainError err), events)
                | Inr encoded \<Rightarrow>
                    (Inr \<lparr>Contents = [\<lparr>URI = uri, MIMEType = ''application/json'',
                                        Text = encoded\<rparr>]\<rparr>, events))))"

section \<open>Startup\<close>

definition defaultDenySubstrings :: "string list" where
  "defaultDenySubstrings =
     ['' into outfile'', '' into dumpfile'', '' for update'', '' lock in share mode'']"

text \<open>\<open>loadConfig\<close>, given what \<open>toml.DecodeFile\<close> made of the file.\<close>

definition loadConfig :: "error + Config \<Rightarrow> error + Config" where
  "loadConfig decoded =
     (case decoded of
        Inl err \<Rightarrow> Inl err
      | Inr cfg0 \<Rightarrow>
          (let cfg1 = (if Server_Name cfg0 = [] then cfg0\<lparr>Server_Name := ''mysql-readonly''\<rparr>
                       else cfg0);
               cfg2 = (if Server_Version cfg1 = [] then cfg1\<lparr>Server_Version := ''v1.0.0''\<rparr>
                       else cfg1);
               cfg3 = (if length (AllowStatementPrefixes cfg2) = 0
                       then cfg2\<lparr>AllowStatementPrefixes :=
                              [''select'', ''show'', ''describe'', ''explain'']\<rparr>
                       else cfg2);
               cfg4 = (if length (DenySubstrings cfg3) = 0
                       then cfg3\<lparr>DenySubstrings := defaultDenySubstrings\<rparr>
                       else cfg3)
           in Inr cfg4))"

text \<open>The handler \<open>main\<close> registers.\<close>

definition main_handler :: "golib \<Rightarrow> sql_DB \<Rightarrow> Config \<Rightarrow> queryHandler" where
  "main_handler lib d cfg =
     \<lparr>db = d, config = cfg, denySubstrings = normalizeList lib (DenySubstrings cfg)\<rparr>"

section \<open>Example environments\<close>

text \<open>
  A parser that answers as the grammar does on the queries of \<open>TestIsReadOnlyQuery\<close> and
  on the three catalog queries, and reports a syntax error on every other text.
\<close>

definition example_parser :: "string \<Rightarrow> error + statement" where
  "example_parser q =
     (if q = ''SELECT * FROM users'' then Inr Select
      else if q = ''show tables'' then Inr Show
      else if q = ''explain select * from users'' then Inr ExplainStmt
      else if q = ''insert into t values (1)'' then Inr Insert
      else if q = ''select * from t for update'' then Inr Select
      else if q = ''SHOW DATABASES'' then Inr Show
      else if q = ''SHOW TABLES FROM `my_db`'' then Inr Show
      else if q = ''DESCRIBE `my_db`.`users`'' then Inr ExplainTab
      else Inl ''syntax error'')"

text \<open>
  What \<open>url.Parse\<close> makes of five locators: four it accepts, and one it refuses for the
  escape \<open>%zz\<close>, with the message of its \<open>url.Error\<close>. Every other text is refused here.
\<close>

definition example_escape_error :: error where
  "example_escape_error =
     ''parse '' @ [CHR 0x22] @ ''mysql://tables/%zz'' @ [CHR 0x22] @
     '': invalid URL escape '' @ [CHR 0x22] @ ''%zz'' @ [CHR 0x22]"

definition example_url_Parse :: "string \<Rightarrow> error + URL" where
  "example_url_Parse uri =
     (if uri = ''mysql://databases''
        then Inr \<lparr>Scheme = ''mysql'', Host = ''databases'', Path = []\<rparr>
      else if uri = ''mysql://tables/my_db''
        then Inr \<lparr>Scheme = ''mysql'', Host = ''tables'', Path = ''/my_db''\<rparr>
      else if uri = ''mysql://tables/my-db; drop''
        then Inr \<lparr>Scheme = ''mysql'', Host = ''tables'', Path = ''/my-db; drop''\<rparr>
      else if uri = ''mysql://schema/my_db/users''
        then Inr \<lparr>Scheme = ''mysql'', Host = ''schema'', Path = ''/my_db/users''\<rparr>
      else if uri = ''mysql://tables/%zz'' then Inl example_escape_error
      else Inl ''parse error'')"

definition example_lib :: golib where
  "example_lib =
     \<lparr>unicode_ToLower = (\<lambda>s. s),
      unicode_TrimFunc = (\<lambda>s. s),
      unicode_TrimRightFunc = (\<lambda>s. s),
      sqlparser_New = Inr example_parser,
      url_Parse = example_url_Parse,
      time_Format = (\<lambda>t layout. layout),
      json_Marshal = (\<lambda>out. Inr ''{}'')\<rparr>"

text \<open>
  A database that answers every statement with the same three rows of two columns, the
  configuration \<open>TestLoadConfigDefaults\<close> loads, and the handler \<open>main\<close> builds from them.
\<close>

definition example_rows :: sql_Rows where
  "example_rows =
     \<lparr>rows_Columns = Inr (Some [''id'', ''name'']),
      rows_Next = [Inr [Int64 1, Bytes ''alice''], Inr [Int64 2, Bytes ''bob''],
                   Inr [Int64 3, Nil]],
      rows_Err = None\<rparr>"

definition example_db :: sql_DB where
  "example_db =
     \<lparr>db_Conn = None, conn_BeginTx = None,
      tx_QueryContext = (\<lambda>q. Inr example_rows), tx_Commit = None\<rparr>"

definition example_decoded :: Config where
  "example_decoded =
     \<lparr>Server_Name = [], Server_Version = [], DSN = ''user:pass@tcp(localhost:3306)/db'',
      MaxOpenConns = 0, MaxIdleConns = 0, ConnMaxLifetimeSeconds = 0,
      ConnMaxIdleTimeSeconds = 0, QueryTimeoutSeconds = 0,
      AllowStatementPrefixes = [], DenySubstrings = [], MaxRows = 0\<rparr>"

definition example_config :: Config where
  "example_config =
     \<lparr>Server_Name = ''mysql-readonly'', Server_Version = ''v1.0.0'',
      DSN = ''user:pass@tcp(localhost:3306)/db'',
      MaxOpenConns = 0, MaxIdleConns = 0, ConnMaxLifetimeSeconds = 0,
      ConnMaxIdleTimeSeconds = 0, QueryTimeoutSeconds = 0,
      AllowStatementPrefixes = [''select'', ''show'', ''describe'', ''explain''],
      DenySubstrings = defaultDenySubstrings, MaxRows = 0\<rparr>"

definition example_handler :: queryHandler where
  "example_handler = main_handler example_lib example_db example_config"

text \<open>The same handler with \<open>max_rows = 2\<close>, and with a database whose commit fails.\<close>

definition example_handler_limit2 :: queryHandler where
  "example_handler_limit2 =
     main_handler example_lib example_db (example_config\<lparr>MaxRows := 2\<rparr>)"

definition example_handler_commit_fails :: queryHandler where
  "example_handler_commit_fails =
     main_handler example_lib (example_db\<lparr>tx_Commit := Some ''connection lost''\<rparr>)
       example_config"

text \<open>A result of 1001 equal rows, for the default limit.\<close>

definition example_rows_many :: sql_Rows where
  "example_rows_many =
     \<lparr>rows_Columns = Inr (Some [''id'', ''name'']),
      rows_Next = replicate 1001 (Inr [Int64 7, Nil]),
      rows_Err = None\<rparr>"

definition example_handler_many :: queryHandler where
  "example_handler_many =
     main_handler example_lib (example_db\<lparr>tx_QueryContext := (\<lambda>q. Inr example_rows_many)\<rparr>)
       example_config"

section \<open>Properties of the string functions\<close>

lemma Contains_iff: "Contains s sub \<longleftrightarrow> (\<exists>a b. s = a @ sub @ b)"
proof (induction s)
  case Nil
  then show ?case by auto
next
  case (Cons c cs)
  show ?case
  proof
    assume "Contains (c # cs) sub"
    then consider "prefix sub (c # cs)" | "Contains cs sub" by auto
    then show "\<exists>a b. c # cs = a @ sub @ b"
    proof cases
      case 1
      then obtain b where "c # cs = sub @ b" by (auto simp: prefix_def)
      then have "c # cs = [] @ sub @ b" by simp
      then show ?thesis by blast
    next
      case 2
      with Cons.IH obtain a b where "cs = a @ sub @ b" by blast
      then have "c # cs = (c # a) @ sub @ b" by simp
      then show ?thesis by blast
    qed
  next
    assume "\<exists>a b. c # cs = a @ sub @ b"
    then obtain a b where ab: "c # cs = a @ sub @ b" by blast
    show "Contains (c # cs) sub"
    proof (cases a)
      case Nil
      with ab have "prefix sub (c # cs)" by (simp add: prefix_def)
      then show ?thesis by simp
    next
      case (Cons x a')
      with ab have "cs = a' @ sub @ b" by simp
      with Cons.IH have "Contains cs sub" by blast
      then show ?thesis by simp
    qed
  qed
qed

lemma Contains_single: "Contains s [c] \<longleftrightarrow> c \<in> set s"
  by (induction s) auto

lemma Contains_map: "Contains s f \<Longrightarrow> Contains (map g s) (map g f)"
proof -
  assume "Contains s f"
  then obtain a b where "s = a @ f @ b" by (auto simp: Contains_iff)
  then have "map g s = map g a @ map g f @ map g b" by simp
  then show ?thesis unfolding Contains_iff by blast
qed

lemma asciiSpace_ascii: "asciiSpace c \<Longrightarrow> (of_char c :: nat) < RuneSelf"
  by (auto simp: asciiSpace_def RuneSelf_def)

lemma asciiSpace_lower: "asciiSpace c \<Longrightarrow> lowerASCII c = c"
  by (auto simp: asciiSpace_def lowerASCII_def isUpperASCII_def)

lemma TrimSpace_all_space: "list_all asciiSpace s \<Longrightarrow> TrimSpace lib s = []"
  by (induction s) (auto simp: RuneSelf_def asciiSpace_def)

lemma ToLower_all_space: "list_all asciiSpace s \<Longrightarrow> ToLower lib s = s"
proof -
  assume a: "list_all asciiSpace s"
  then have "isASCII s" by (induction s) (auto simp: isASCII_def asciiSpace_ascii)
  moreover from a have "map lowerASCII s = s" by (induction s) (auto simp: asciiSpace_lower)
  ultimately show ?thesis by (simp add: ToLower_def)
qed

lemma normalized_blank: "list_all asciiSpace query \<Longrightarrow> TrimSpace lib (ToLower lib query) = []"
  by (simp add: ToLower_all_space TrimSpace_all_space)

text \<open>On ASCII text neither library function reaches its Unicode path.\<close>

lemma trimStop_ascii: "isASCII s \<Longrightarrow> trimStop lib s = rev (dropWhile asciiSpace s)"
  by (induction s) (auto simp: isASCII_def)

lemma TrimSpace_ascii:
  "isASCII s \<Longrightarrow> TrimSpace lib s = rev (dropWhile asciiSpace (rev (dropWhile asciiSpace s)))"
proof (induction s)
  case Nil
  then show ?case by simp
next
  case (Cons c cs)
  then have c: "(of_char c :: nat) < RuneSelf" and cs: "isASCII cs" by (auto simp: isASCII_def)
  show ?case
  proof (cases "asciiSpace c")
    case True
    with Cons.IH cs c show ?thesis by simp
  next
    case False
    have "isASCII (rev (c # cs))" using Cons.prems by (simp add: isASCII_def)
    then have "trimStop lib (rev (c # cs)) = rev (dropWhile asciiSpace (rev (c # cs)))"
      by (rule trimStop_ascii)
    with False c show ?thesis by simp
  qed
qed

lemma lowerASCII_ascii:
  "(of_char c :: nat) < RuneSelf \<Longrightarrow> (of_char (lowerASCII c) :: nat) < RuneSelf"
  by (auto simp: lowerASCII_def isUpperASCII_def RuneSelf_def)

lemma isASCII_lower: "isASCII s \<Longrightarrow> isASCII (map lowerASCII s)"
  by (induction s) (auto simp: isASCII_def lowerASCII_ascii)

lemma normalized_ascii:
  "isASCII q \<Longrightarrow> TrimSpace lib (ToLower lib q) =
     rev (dropWhile asciiSpace (rev (dropWhile asciiSpace (map lowerASCII q))))"
  by (simp add: ToLower_def TrimSpace_ascii isASCII_lower)

lemma trim_keeps_inner:
  assumes "f \<noteq> []" and "\<not> asciiSpace (hd f)" and "\<not> asciiSpace (last f)"
  shows "\<exists>a' b'. rev (dropWhile asciiSpace (rev (dropWhile asciiSpace (a @ f @ b)))) = a' @ f @ b'"
proof -
  from assms obtain x f' where f: "f = x # f'" and x: "\<not> asciiSpace x" by (cases f) auto
  have "dropWhile asciiSpace (a @ f @ b) = dropWhile asciiSpace a @ f @ b"
    using x by (simp add: f dropWhile_append3)
  moreover
  from assms obtain g y where g: "f = g @ [y]" and y: "\<not> asciiSpace y"
    by (metis append_butlast_last_id)
  have "rev (dropWhile asciiSpace a @ f @ b) = rev b @ y # rev g @ rev (dropWhile asciiSpace a)"
    by (simp add: g)
  then have "dropWhile asciiSpace (rev (dropWhile asciiSpace a @ f @ b))
      = dropWhile asciiSpace (rev b) @ y # rev g @ rev (dropWhile asciiSpace a)"
    using y by (simp add: dropWhile_append3)
  then have "rev (dropWhile asciiSpace (rev (dropWhile asciiSpace a @ f @ b)))
      = dropWhile asciiSpace a @ f @ rev (dropWhile asciiSpace (rev b))"
    by (simp add: g)
  ultimately show ?thesis by metis
qed

lemma Contains_normalized_ascii:
  assumes "isASCII q" and "Contains q f" and "f \<noteq> []"
    and "map lowerASCII f = f" and "\<not> asciiSpace (hd f)" and "\<not> asciiSpace (last f)"
  shows "Contains (TrimSpace lib (ToLower lib q)) f"
proof -
  from assms(2) have "Contains (map lowerASCII q) (map lowerASCII f)" by (rule Contains_map)
  with assms(4) obtain a b where "map lowerASCII q = a @ f @ b" by (auto simp: Contains_iff)
  with trim_keeps_inner[OF assms(3,5,6), of a b] show ?thesis
    by (auto simp: normalized_ascii[OF assms(1)] Contains_iff)
qed

section \<open>The classifier\<close>

lemma denied_iff: "denied n ds \<longleftrightarrow> (\<exists>f \<in> set ds. f \<noteq> [] \<and> Contains n f)"
  by (induction ds) auto

lemma readOnlyKind_iff:
  "readOnlyKind stmt \<longleftrightarrow> stmt \<in> {Select, UnionStmt, Show, ExplainStmt, ExplainTab}"
  by (cases stmt) simp_all

text \<open>
  Claim C1. Take a query whose normalized text (lower-cased, then trimmed) is not empty,
  has no \<open>;\<close> and contains no non-empty deny fragment. Then \<open>isReadOnlyQuery\<close> admits it
  exactly when a parser is built, the parser accepts the text, and the statement is a
  \<open>Select\<close>, a \<open>Union\<close>, a \<open>Show\<close> or an \<open>Explain\<close> (\<open>ExplainStmt\<close> or \<open>ExplainTab\<close>).
  And whatever the text looks like, it is rejected when the parser reports an error.
\<close>

theorem isReadOnlyQuery_admits_iff_read_only_kind:
  "(TrimSpace lib (ToLower lib query) \<noteq> [] \<and>
    \<not> Contains (TrimSpace lib (ToLower lib query)) '';'' \<and>
    (\<forall>fragment \<in> set deny. fragment \<noteq> [] \<longrightarrow>
        \<not> Contains (TrimSpace lib (ToLower lib query)) fragment)
    \<longrightarrow> (isReadOnlyQuery lib query deny \<longleftrightarrow>
          (\<exists>parser stmt. sqlparser_New lib = Inr parser \<and> parser query = Inr stmt \<and>
             stmt \<in> {Select, UnionStmt, Show, ExplainStmt, ExplainTab})))
   \<and> ((\<forall>parser. sqlparser_New lib = Inr parser \<longrightarrow> (\<exists>err. parser query = Inl err))
        \<longrightarrow> \<not> isReadOnlyQuery lib query deny)"
  by (auto simp: isReadOnlyQuery_def Let_def denied_iff readOnlyKind_iff split: sum.splits)

theorem isReadOnlyQuery_admits_iff_read_only_kind_witness:
  "TrimSpace example_lib (ToLower example_lib ''SELECT * FROM users'') = ''select * from users'' \<and>
   \<not> Contains ''select * from users'' '';'' \<and>
   \<not> Contains ''select * from users'' '' into outfile'' \<and>
   \<not> Contains ''select * from users'' '' for update'' \<and>
   sqlparser_New example_lib = Inr example_parser \<and>
   example_parser ''SELECT * FROM users'' = Inr Select \<and>
   isReadOnlyQuery example_lib ''SELECT * FROM users'' ['' into outfile'', '' for update''] \<and>
   example_parser ''selec 1'' = Inl ''syntax error'' \<and>
   \<not> isReadOnlyQuery example_lib ''selec 1'' ['' into outfile'', '' for update'']"
proof -
  let ?q = "''SELECT * FROM users''" and ?deny = "['' into outfile'', '' for update'']"
  have n: "TrimSpace example_lib (ToLower example_lib ?q) = ''select * from users''"
    by code_simp
  have c: "\<not> Contains ''select * from users'' '';''"
    "\<not> Contains ''select * from users'' '' into outfile''"
    "\<not> Contains ''select * from users'' '' for update''"
    by simp_all
  have new: "sqlparser_New example_lib = Inr example_parser"
    by (simp add: example_lib_def)
  have p: "example_parser ?q = Inr Select"
    by (simp add: example_parser_def)
  have f: "example_parser ''selec 1'' = Inl ''syntax error''"
    by (simp add: example_parser_def)
  from isReadOnlyQuery_admits_iff_read_only_kind [of example_lib ?q ?deny] n c new p
  have a: "isReadOnlyQuery example_lib ?q ?deny" by simp
  from isReadOnlyQuery_admits_iff_read_only_kind [of example_lib "''selec 1''" ?deny] new f
  have b: "\<not> isReadOnlyQuery example_lib ''selec 1'' ?deny" by simp
  from n c new p a f b show ?thesis by simp
qed

text \<open>
  Claim C2. A query whose normalized text has the character \<open>;\<close> anywhere is rejected,
  whatever the parser would make of it and whatever the deny list; so is a query whose
  normalized text is empty, which is the case of the empty text and of text made of
  ASCII white space only.
\<close>

theorem isReadOnlyQuery_rejects_semicolon_and_blank:
  "(CHR '';'' \<in> set (TrimSpace lib (ToLower lib query)) \<longrightarrow> \<not> isReadOnlyQuery lib query deny)
   \<and> (TrimSpace lib (ToLower lib query) = [] \<longrightarrow> \<not> isReadOnlyQuery lib query deny)
   \<and> (list_all asciiSpace query \<longrightarrow> \<not> isReadOnlyQuery lib query deny)"
  by (simp add: isReadOnlyQuery_def Let_def Contains_single normalized_blank)

theorem isReadOnlyQuery_rejects_semicolon_and_blank_witness:
  "CHR '';'' \<in> set (TrimSpace example_lib (ToLower example_lib ''select 1; select 2'')) \<and>
   \<not> isReadOnlyQuery example_lib ''select 1; select 2'' [] \<and>
   TrimSpace example_lib (ToLower example_lib []) = [] \<and>
   \<not> isReadOnlyQuery example_lib [] [] \<and>
   list_all asciiSpace ''   '' \<and>
   \<not> isReadOnlyQuery example_lib ''   '' []"
proof -
  have n: "TrimSpace example_lib (ToLower example_lib ''select 1; select 2'')
      = ''select 1; select 2''"
    by code_simp
  have h1: "CHR '';'' \<in> set (TrimSpace example_lib (ToLower example_lib ''select 1; select 2''))"
    by (simp add: n)
  have h2: "TrimSpace example_lib (ToLower example_lib []) = []"
    by code_simp
  have h3: "list_all asciiSpace ''   ''"
    by (simp add: asciiSpace_def)
  from h1 h2 h3
    isReadOnlyQuery_rejects_semicolon_and_blank [of example_lib "''select 1; select 2''" "[]"]
    isReadOnlyQuery_rejects_semicolon_and_blank [of example_lib "[]" "[]"]
    isReadOnlyQuery_rejects_semicolon_and_blank [of example_lib "''   ''" "[]"]
  show ?thesis by blast
qed

text \<open>
  Claim C3. A query whose normalized text contains a non-empty fragment of the deny list
  passed to \<open>isReadOnlyQuery\<close> is rejected, for every parser, so also when the text parses
  as a \<open>Select\<close>. The text is lower-cased before the match; the fragment is matched as it
  is, byte for byte.
\<close>

theorem isReadOnlyQuery_rejects_deny_substring:
  assumes "fragment \<in> set deny" and "fragment \<noteq> []"
    and "Contains (TrimSpace lib (ToLower lib query)) fragment"
  shows "\<not> isReadOnlyQuery lib query deny"
proof -
  from assms have "denied (TrimSpace lib (ToLower lib query)) deny"
    by (auto simp: denied_iff)
  then show ?thesis by (simp add: isReadOnlyQuery_def Let_def)
qed

theorem isReadOnlyQuery_rejects_deny_substring_witness:
  "'' for update'' \<in> set ['' into outfile'', '' for update''] \<and>
   Contains (TrimSpace example_lib (ToLower example_lib ''select * from t for update''))
     '' for update'' \<and>
   example_parser ''select * from t for update'' = Inr Select \<and>
   \<not> isReadOnlyQuery example_lib ''select * from t for update''
       ['' into outfile'', '' for update'']"
proof -
  have n: "TrimSpace example_lib (ToLower example_lib ''select * from t for update'')
      = ''select * from t for update''"
    by code_simp
  have h1: "'' for update'' \<in> set ['' into outfile'', '' for update'']" by simp
  have h2: "'' for update'' \<noteq> []" by simp
  have h3: "Contains (TrimSpace example_lib (ToLower example_lib ''select * from t for update''))
      '' for update''"
    by (simp add: n)
  have p: "example_parser ''select * from t for update'' = Inr Select"
    by (simp add: example_parser_def)
  from isReadOnlyQuery_rejects_deny_substring [OF h1 h2 h3] h1 h3 p show ?thesis by blast
qed

section \<open>The row loop\<close>

lemma rowLoop_invariant:
  "rowLoop lib n m rows results rc = Inr (res, rc', tr) \<Longrightarrow>
   \<exists>new. res = results @ new \<and> rc' = rc + int (length new) \<and>
         (\<forall>row \<in> set new. length row = n) \<and> (rc \<le> m \<longrightarrow> rc' \<le> m)"
proof (induction rows arbitrary: results rc)
  case Nil
  then show ?case by simp
next
  case (Cons r rest)
  show ?case
  proof (cases "rc \<ge> m")
    case True
    with Cons.prems show ?thesis by simp
  next
    case False
    with Cons.prems obtain vals where scan: "rows_Scan n r = Inr vals"
      and run: "rowLoop lib n m rest (results @ [map (normalizeValue lib) vals]) (rc + 1)
                 = Inr (res, rc', tr)"
      by (auto split: sum.splits)
    from scan have len: "length vals = n"
      by (auto simp: rows_Scan_def split: sum.splits if_splits)
    from Cons.IH [OF run] obtain new where new:
      "res = (results @ [map (normalizeValue lib) vals]) @ new"
      "rc' = rc + 1 + int (length new)"
      "\<forall>row \<in> set new. length row = n"
      "rc + 1 \<le> m \<longrightarrow> rc' \<le> m"
      by auto
    let ?new = "map (normalizeValue lib) vals # new"
    from new len False have "res = results @ ?new \<and> rc' = rc + int (length ?new) \<and>
         (\<forall>row \<in> set ?new. length row = n) \<and> (rc \<le> m \<longrightarrow> rc' \<le> m)"
      by auto
    then show ?thesis by blast
  qed
qed

lemma rowLoop_success:
  assumes "take (nat (m - rc)) rows = map Inr vals"
    and "\<forall>v \<in> set vals. length v = n"
    and "rc \<le> m"
  shows "rowLoop lib n m rows results rc =
     Inr (results @ map (map (normalizeValue lib)) vals, rc + int (length vals),
          int (length rows) > m - rc)"
  using assms
proof (induction rows arbitrary: results rc vals)
  case Nil
  then show ?case by simp
next
  case (Cons r rest)
  show ?case
  proof (cases "rc \<ge> m")
    case True
    with Cons.prems have "rc = m" by simp
    with Cons.prems show ?thesis by simp
  next
    case False
    then obtain k where k: "nat (m - rc) = Suc k" by (cases "nat (m - rc)") auto
    with Cons.prems obtain v vs where vals: "vals = v # vs" and r: "r = Inr v"
      and rest: "take k rest = map Inr vs"
      by (cases vals) auto
    from k have k': "nat (m - (rc + 1)) = k" by linarith
    from vals Cons.prems have lv: "length v = n" and lvs: "\<forall>v \<in> set vs. length v = n"
      by auto
    from False have le: "rc + 1 \<le> m" by simp
    have scan: "rows_Scan n r = Inr v" using r lv by (simp add: rows_Scan_def)
    from Cons.IH [of "rc + 1" vs "results @ [map (normalizeValue lib) v]"] rest k' lvs le
    have "rowLoop lib n m rest (results @ [map (normalizeValue lib) v]) (rc + 1) =
       Inr ((results @ [map (normalizeValue lib) v]) @ map (map (normalizeValue lib)) vs,
            rc + 1 + int (length vs), int (length rest) > m - (rc + 1))"
      by simp
    with False scan vals show ?thesis by auto
  qed
qed

lemma rowLoop_scan_failure_at:
  "i < length rows \<Longrightarrow> rc + int i < m \<Longrightarrow> rows_Scan n (rows ! i) = Inl e \<Longrightarrow>
   \<exists>e'. rowLoop lib n m rows results rc = Inl e'"
proof (induction rows arbitrary: i results rc)
  case Nil
  then show ?case by simp
next
  case (Cons r rest)
  then have lt: "\<not> rc \<ge> m" by simp
  show ?case
  proof (cases "rows_Scan n r")
    case (Inl e0)
    with lt show ?thesis by simp
  next
    case (Inr vals)
    with Cons.prems obtain j where j: "i = Suc j" by (cases i) auto
    with Cons.prems have "j < length rest" "rc + 1 + int j < m" "rows_Scan n (rest ! j) = Inl e"
      by auto
    from Cons.IH [OF this] Inr lt show ?thesis by simp
  qed
qed

lemma rowLoop_output_invariant:
  assumes "rowLoop lib n (maxRowsOf cfg) rows [] 0 = Inr (res, rc, tr)"
  shows "rc = int (length res) \<and> rc \<le> maxRowsOf cfg \<and> (\<forall>row \<in> set res. length row = n)"
proof -
  have "0 \<le> maxRowsOf cfg" by (simp add: maxRowsOf_def)
  with rowLoop_invariant [OF assms] show ?thesis by auto
qed

section \<open>The executor\<close>

lemma toolFailure_eq:
  "toolFailure msg =
     (\<lparr>Content = [msg],
       StructuredContent = \<lparr>sc_columns = [], sc_rows = [], sc_rowCount = 0, sc_truncated = False\<rparr>,
       IsError = True\<rparr>,
      \<lparr>Columns = Some [], Rows = Some [], RowCount = 0, Truncated = False\<rparr>, None)"
  by (simp add: toolFailure_def toolErrorResultf_def queryOutputToStructuredContent_def Let_def)

lemma runQuery_cases:
  assumes "runQuery lib h input = ((result, output, err), events)"
  shows "(\<exists>prefix detail. (result, output, err) = toolFailure (prefix @ detail) \<and>
            prefix \<in> set failure_prefixes)
       \<or> (isReadOnlyQuery lib (Query input) (denySubstrings h) \<and>
          db_Conn (db h) = None \<and> conn_BeginTx (db h) = None \<and>
          (\<exists>rows cols res rc tr.
             tx_QueryContext (db h) (Query input) = Inr rows \<and>
             rows_Columns rows = Inr cols \<and>
             rowLoop lib (length (case cols of None \<Rightarrow> [] | Some cs \<Rightarrow> cs))
               (maxRowsOf (config h)) (rows_Next rows) [] 0 = Inr (res, rc, tr) \<and>
             rows_Err rows = None \<and> tx_Commit (db h) = None \<and>
             output = \<lparr>Columns = Some (case cols of None \<Rightarrow> [] | Some cs \<Rightarrow> cs),
                       Rows = Some res, RowCount = rc, Truncated = tr\<rparr> \<and>
             result = \<lparr>Content = [''ok''],
                       StructuredContent = queryOutputToStructuredContent output,
                       IsError = False\<rparr> \<and>
             err = None))"
proof -
  have pre: "\<And>p d. p \<in> set failure_prefixes \<Longrightarrow>
      \<exists>prefix detail. toolFailure (p @ d) = toolFailure (prefix @ detail) \<and>
         prefix \<in> set failure_prefixes"
    by blast
  have pre0: "\<exists>prefix detail. toolFailure ''only read-only queries are allowed''
        = toolFailure (prefix @ detail) \<and> prefix \<in> set failure_prefixes"
    using pre [of "''only read-only queries are allowed''" "[]"]
    by (simp add: failure_prefixes_def)
  show ?thesis
  proof (cases "isReadOnlyQuery lib (Query input) (denySubstrings h)")
    case False
    with assms pre0 show ?thesis by (auto simp: runQuery_def)
  next
    case adm: True
    show ?thesis
    proof (cases "db_Conn (db h)")
      case (Some e)
      with adm assms pre [of "''failed to acquire connection: ''" e] show ?thesis
        by (auto simp: runQuery_def failure_prefixes_def)
    next
      case conn: None
      show ?thesis
      proof (cases "conn_BeginTx (db h)")
        case (Some e)
        with adm conn assms pre [of "''failed to start read-only transaction: ''" e]
        show ?thesis by (auto simp: runQuery_def failure_prefixes_def)
      next
        case tx: None
        show ?thesis
        proof (cases "tx_QueryContext (db h) (Query input)")
          case (Inl e)
          with adm conn tx assms pre [of "''query failed: ''" e]
          show ?thesis by (auto simp: runQuery_def failure_prefixes_def)
        next
          case rows: (Inr rows)
          show ?thesis
          proof (cases "rows_Columns rows")
            case (Inl e)
            with adm conn tx rows assms pre [of "''failed to fetch columns: ''" e]
            show ?thesis by (auto simp: runQuery_def failure_prefixes_def)
          next
            case cols: (Inr cols)
            let ?columns = "case cols of None \<Rightarrow> [] | Some cs \<Rightarrow> cs"
            show ?thesis
            proof (cases "rowLoop lib (length ?columns) (maxRowsOf (config h)) (rows_Next rows) [] 0")
              case (Inl e)
              with adm conn tx rows cols assms pre [of "''failed to read row: ''" e]
              show ?thesis by (auto simp: runQuery_def failure_prefixes_def Let_def)
            next
              case (Inr triple)
              then obtain res rc tr where loop:
                "rowLoop lib (length ?columns) (maxRowsOf (config h)) (rows_Next rows) [] 0
                   = Inr (res, rc, tr)"
                by (cases triple) auto
              show ?thesis
              proof (cases "rows_Err rows")
                case (Some e)
                with adm conn tx rows cols loop assms pre [of "''row iteration failed: ''" e]
                show ?thesis by (auto simp: runQuery_def failure_prefixes_def Let_def)
              next
                case iter: None
                show ?thesis
                proof (cases "tx_Commit (db h)")
                  case (Some e)
                  with adm conn tx rows cols loop iter assms
                    pre [of "''failed to finish transaction: ''" e]
                  show ?thesis by (auto simp: runQuery_def failure_prefixes_def Let_def)
                next
                  case None
                  with adm conn tx rows cols loop iter assms
                  show ?thesis by (auto simp: runQuery_def Let_def)
                qed
              qed
            qed
          qed
        qed
      qed
    qed
  qed
qed

lemma runQuery_success:
  assumes "isReadOnlyQuery lib (Query input) (denySubstrings h)"
    and "db_Conn (db h) = None" and "conn_BeginTx (db h) = None"
    and "tx_QueryContext (db h) (Query input) = Inr rows"
    and "rows_Columns rows = Inr cols"
    and "take (nat (maxRowsOf (config h))) (rows_Next rows) = map Inr vals"
    and "\<forall>v \<in> set vals. length v = length (case cols of None \<Rightarrow> [] | Some cs \<Rightarrow> cs)"
    and "rows_Err rows = None" and "tx_Commit (db h) = None"
  shows "fst (runQuery lib h input) =
     (\<lparr>Content = [''ok''],
       StructuredContent =
         \<lparr>sc_columns = (case cols of None \<Rightarrow> [] | Some cs \<Rightarrow> cs),
          sc_rows = map (map (normalizeValue lib)) vals,
          sc_rowCount = int (length vals),
          sc_truncated = (int (length (rows_Next rows)) > maxRowsOf (config h))\<rparr>,
       IsError = False\<rparr>,
      \<lparr>Columns = Some (case cols of None \<Rightarrow> [] | Some cs \<Rightarrow> cs),
       Rows = Some (map (map (normalizeValue lib)) vals),
       RowCount = int (length vals),
       Truncated = (int (length (rows_Next rows)) > maxRowsOf (config h))\<rparr>,
      None)"
proof -
  have m: "0 \<le> maxRowsOf (config h)" by (simp add: maxRowsOf_def)
  from assms(6,7) m
  have "rowLoop lib (length (case cols of None \<Rightarrow> [] | Some cs \<Rightarrow> cs)) (maxRowsOf (config h))
      (rows_Next rows) [] 0 =
     Inr ([] @ map (map (normalizeValue lib)) vals, 0 + int (length vals),
          int (length (rows_Next rows)) > maxRowsOf (config h) - 0)"
    by (intro rowLoop_success) auto
  with assms show ?thesis
    by (simp add: runQuery_def Let_def queryOutputToStructuredContent_def)
qed

lemma runQueryForResource_cases:
  assumes "runQueryForResource lib h query = ((output, err), events)"
  shows "(\<exists>msg. resourceFailure msg = (output, err))
       \<or> (isReadOnlyQuery lib query (denySubstrings h) \<and>
          db_Conn (db h) = None \<and> conn_BeginTx (db h) = None \<and>
          (\<exists>rows cols res rc tr.
             tx_QueryContext (db h) query = Inr rows \<and>
             rows_Columns rows = Inr cols \<and>
             rowLoop lib (length (case cols of None \<Rightarrow> [] | Some cs \<Rightarrow> cs))
               (maxRowsOf (config h)) (rows_Next rows) [] 0 = Inr (res, rc, tr) \<and>
             rows_Err rows = None \<and> tx_Commit (db h) = None \<and>
             output = \<lparr>Columns = Some (case cols of None \<Rightarrow> [] | Some cs \<Rightarrow> cs),
                       Rows = Some res, RowCount = rc, Truncated = tr\<rparr> \<and>
             err = None))"
proof (cases "isReadOnlyQuery lib query (denySubstrings h)")
  case False
  with assms show ?thesis by (auto simp: runQueryForResource_def)
next
  case adm: True
  show ?thesis
  proof (cases "db_Conn (db h)")
    case (Some e)
    with adm assms show ?thesis by (auto simp: runQueryForResource_def)
  next
    case conn: None
    show ?thesis
    proof (cases "conn_BeginTx (db h)")
      case (Some e)
      with adm conn assms show ?thesis by (auto simp: runQueryForResource_def)
    next
      case tx: None
      show ?thesis
      proof (cases "tx_QueryContext (db h) query")
        case (Inl e)
        with adm conn tx assms show ?thesis by (auto simp: runQueryForResource_def)
      next
        case rows: (Inr rows)
        show ?thesis
        proof (cases "rows_Columns rows")
          case (Inl e)
          with adm conn tx rows assms show ?thesis by (auto simp: runQueryForResource_def)
        next
          case cols: (Inr cols)
          let ?columns = "case cols of None \<Rightarrow> [] | Some cs \<Rightarrow> cs"
          show ?thesis
          proof (cases "rowLoop lib (length ?columns) (maxRowsOf (config h)) (rows_Next rows) [] 0")
            case (Inl e)
            with adm conn tx rows cols assms show ?thesis
              by (auto simp: runQueryForResource_def Let_def)
          next
            case (Inr triple)
            then obtain res rc tr where loop:
              "rowLoop lib (length ?columns) (maxRowsOf (config h)) (rows_Next rows) [] 0
                 = Inr (res, rc, tr)"
              by (cases triple) auto
            show ?thesis
            proof (cases "rows_Err rows")
              case (Some e)
              with adm conn tx rows cols loop assms show ?thesis
                by (auto simp: runQueryForResource_def Let_def)
            next
              case iter: None
              show ?thesis
              proof (cases "tx_Commit (db h)")
                case (Some e)
                with adm conn tx rows cols loop iter assms show ?thesis
                  by (auto simp: runQueryForResource_def Let_def)
              next
                case None
                with adm conn tx rows cols loop iter assms show ?thesis
                  by (auto simp: runQueryForResource_def Let_def)
              qed
            qed
          qed
        qed
      qed
    qed
  qed
qed

lemma runQuery_ok_output:
  assumes run: "runQuery lib h input = ((result, output, err), events)"
    and ok: "\<not> IsError result"
  shows "\<exists>(rows :: sql_Rows) cols res rc tr.
     rowLoop lib (length (case cols of None \<Rightarrow> [] | Some cs \<Rightarrow> cs))
       (maxRowsOf (config h)) (rows_Next rows) [] 0 = Inr (res, rc, tr) \<and>
     output = \<lparr>Columns = Some (case cols of None \<Rightarrow> [] | Some cs \<Rightarrow> cs),
               Rows = Some res, RowCount = rc, Truncated = tr\<rparr> \<and>
     result = \<lparr>Content = [''ok''],
               StructuredContent = queryOutputToStructuredContent output,
               IsError = False\<rparr>"
  using runQuery_cases [OF run]
proof (elim disjE exE conjE)
  fix prefix detail
  assume "(result, output, err) = toolFailure (prefix @ detail)"
  then have "IsError result" by (simp add: toolFailure_eq)
  with ok show ?thesis by simp
next
  fix rows :: sql_Rows and cols res rc tr
  assume "rowLoop lib (length (case cols of None \<Rightarrow> [] | Some cs \<Rightarrow> cs))
         (maxRowsOf (config h)) (rows_Next rows) [] 0 = Inr (res, rc, tr)"
    and "output = \<lparr>Columns = Some (case cols of None \<Rightarrow> [] | Some cs \<Rightarrow> cs),
                 Rows = Some res, RowCount = rc, Truncated = tr\<rparr>"
    and "result = \<lparr>Content = [''ok''],
                 StructuredContent = queryOutputToStructuredContent output,
                 IsError = False\<rparr>"
  then show ?thesis by (intro exI conjI)
qed

lemma runQueryForResource_ok_output:
  assumes run: "runQueryForResource lib h query = ((output, None), events)"
  shows "\<exists>(rows :: sql_Rows) cols res rc tr.
     rowLoop lib (length (case cols of None \<Rightarrow> [] | Some cs \<Rightarrow> cs))
       (maxRowsOf (config h)) (rows_Next rows) [] 0 = Inr (res, rc, tr) \<and>
     output = \<lparr>Columns = Some (case cols of None \<Rightarrow> [] | Some cs \<Rightarrow> cs),
               Rows = Some res, RowCount = rc, Truncated = tr\<rparr>"
  using runQueryForResource_cases [OF run]
proof (elim disjE exE conjE)
  fix msg
  assume "resourceFailure msg = (output, None)"
  then show ?thesis by (simp add: resourceFailure_def)
next
  fix rows :: sql_Rows and cols res rc tr
  assume "rowLoop lib (length (case cols of None \<Rightarrow> [] | Some cs \<Rightarrow> cs))
         (maxRowsOf (config h)) (rows_Next rows) [] 0 = Inr (res, rc, tr)"
    and "output = \<lparr>Columns = Some (case cols of None \<Rightarrow> [] | Some cs \<Rightarrow> cs),
                 Rows = Some res, RowCount = rc, Truncated = tr\<rparr>"
  then show ?thesis by (intro exI conjI)
qed

lemma example_admitted:
  "isReadOnlyQuery example_lib ''SELECT * FROM users'' (normalizeList example_lib defaultDenySubstrings)"
  by code_simp

lemma example_rejected:
  "\<not> isReadOnlyQuery example_lib ''select 1; select 2'' (normalizeList example_lib defaultDenySubstrings)"
  by code_simp

lemma example_run_ok:
  "\<not> IsError (fst (fst (runQuery example_lib example_handler \<lparr>Query = ''SELECT * FROM users''\<rparr>)))"
  by code_simp

lemma example_resource_ok:
  "snd (fst (runQueryForResource example_lib example_handler ''SHOW DATABASES'')) = None"
  by code_simp

text \<open>
  Claim C4. Take an admitted query on which every database call succeeds: the connection,
  the transaction, the statement, the column names, the scan of each row the loop reaches
  (\<open>vals\<close> are the driver's values of the first \<open>maxRows\<close> rows), \<open>rows.Err()\<close> and the
  commit. The limit \<open>maxRows\<close> is the configured \<open>max_rows\<close>, or 1000 when that is zero
  (unset) or negative. Then \<open>runQuery\<close> reports success and returns the normalized
  \<open>vals\<close>. When the result has more than \<open>maxRows\<close> rows these are exactly \<open>maxRows\<close>
  rows, \<open>rowCount\<close> is \<open>maxRows\<close> and \<open>truncated\<close> is set; when it has \<open>maxRows\<close> rows or
  fewer, they are all the rows, \<open>rowCount\<close> is their number and \<open>truncated\<close> is not set.
\<close>

theorem runQuery_row_limit:
  assumes "isReadOnlyQuery lib (Query input) (denySubstrings h)"
    and "db_Conn (db h) = None" and "conn_BeginTx (db h) = None"
    and "tx_QueryContext (db h) (Query input) = Inr rows"
    and "rows_Columns rows = Inr cols"
    and "maxRows = (if MaxRows (config h) \<le> 0 then 1000 else MaxRows (config h))"
    and "take (nat maxRows) (rows_Next rows) = map Inr vals"
    and "\<forall>v \<in> set vals. length v = length (case cols of None \<Rightarrow> [] | Some cs \<Rightarrow> cs)"
    and "rows_Err rows = None" and "tx_Commit (db h) = None"
    and "runQuery lib h input = ((result, output, err), events)"
  shows "\<not> IsError result \<and>
    Rows output = Some (map (map (normalizeValue lib)) vals) \<and>
    (int (length (rows_Next rows)) > maxRows \<longrightarrow>
       int (length vals) = maxRows \<and> RowCount output = maxRows \<and> Truncated output) \<and>
    (int (length (rows_Next rows)) \<le> maxRows \<longrightarrow>
       rows_Next rows = map Inr vals \<and> RowCount output = int (length (rows_Next rows)) \<and>
       \<not> Truncated output)"
proof -
  have m: "maxRows = maxRowsOf (config h)" using assms(6) by (simp add: maxRowsOf_def)
  have pos: "0 < maxRows" using assms(6) by (simp split: if_splits)
  from runQuery_success [OF assms(1-5) assms(7) [unfolded m] assms(8-10)] assms(11)
  have out: "output = \<lparr>Columns = Some (case cols of None \<Rightarrow> [] | Some cs \<Rightarrow> cs),
       Rows = Some (map (map (normalizeValue lib)) vals),
       RowCount = int (length vals),
       Truncated = (int (length (rows_Next rows)) > maxRows)\<rparr>"
    and res: "\<not> IsError result"
    by (simp_all add: m)
  have len: "length vals = min (length (rows_Next rows)) (nat maxRows)"
    using arg_cong [OF assms(7), of length] by simp
  have all: "int (length (rows_Next rows)) \<le> maxRows \<Longrightarrow> rows_Next rows = map Inr vals"
    using assms(7) by simp
  from out res len all pos show ?thesis by auto
qed

theorem runQuery_row_limit_witness:
  "isReadOnlyQuery example_lib ''SELECT * FROM users'' (denySubstrings example_handler_limit2) \<and>
   MaxRows (config example_handler_limit2) = 2 \<and>
   length (rows_Next example_rows) = 3 \<and>
   Rows (fst (snd (fst (runQuery example_lib example_handler_limit2
      \<lparr>Query = ''SELECT * FROM users''\<rparr>)))) =
     Some [[Int64 1, String ''alice''], [Int64 2, String ''bob'']] \<and>
   RowCount (fst (snd (fst (runQuery example_lib example_handler_limit2
      \<lparr>Query = ''SELECT * FROM users''\<rparr>)))) = 2 \<and>
   Truncated (fst (snd (fst (runQuery example_lib example_handler_limit2
      \<lparr>Query = ''SELECT * FROM users''\<rparr>)))) \<and>
   MaxRows (config example_handler) = 0 \<and>
   Rows (fst (snd (fst (runQuery example_lib example_handler
      \<lparr>Query = ''SELECT * FROM users''\<rparr>)))) =
     Some [[Int64 1, String ''alice''], [Int64 2, String ''bob''], [Int64 3, Nil]] \<and>
   RowCount (fst (snd (fst (runQuery example_lib example_handler
      \<lparr>Query = ''SELECT * FROM users''\<rparr>)))) = 3 \<and>
   \<not> Truncated (fst (snd (fst (runQuery example_lib example_handler
      \<lparr>Query = ''SELECT * FROM users''\<rparr>)))) \<and>
   MaxRows (config example_handler_many) = 0 \<and>
   length (rows_Next example_rows_many) = 1001 \<and>
   RowCount (fst (snd (fst (runQuery example_lib example_handler_many
      \<lparr>Query = ''SELECT * FROM users''\<rparr>)))) = 1000 \<and>
   Truncated (fst (snd (fst (runQuery example_lib example_handler_many
      \<lparr>Query = ''SELECT * FROM users''\<rparr>))))"
proof -
  let ?input = "\<lparr>Query = ''SELECT * FROM users''\<rparr>"
  let ?r2 = "runQuery example_lib example_handler_limit2 ?input"
  let ?r = "runQuery example_lib example_handler ?input"
  let ?rm = "runQuery example_lib example_handler_many ?input"
  have adm2: "isReadOnlyQuery example_lib (Query ?input) (denySubstrings example_handler_limit2)"
    using example_admitted
    by (simp add: example_handler_limit2_def main_handler_def example_config_def)
  have adm: "isReadOnlyQuery example_lib (Query ?input) (denySubstrings example_handler)"
    using example_admitted
    by (simp add: example_handler_def main_handler_def example_config_def)
  have admm: "isReadOnlyQuery example_lib (Query ?input) (denySubstrings example_handler_many)"
    using example_admitted
    by (simp add: example_handler_many_def main_handler_def example_config_def)
  have two:
    "\<not> IsError (fst (fst ?r2)) \<and>
     Rows (fst (snd (fst ?r2))) =
       Some (map (map (normalizeValue example_lib))
          [[Int64 1, Bytes ''alice''], [Int64 2, Bytes ''bob'']]) \<and>
     (int (length (rows_Next example_rows)) > 2 \<longrightarrow>
        int (length [[Int64 1, Bytes ''alice''], [Int64 2, Bytes ''bob'']]) = 2 \<and>
        RowCount (fst (snd (fst ?r2))) = 2 \<and> Truncated (fst (snd (fst ?r2)))) \<and>
     (int (length (rows_Next example_rows)) \<le> 2 \<longrightarrow>
        rows_Next example_rows = map Inr [[Int64 1, Bytes ''alice''], [Int64 2, Bytes ''bob'']] \<and>
        RowCount (fst (snd (fst ?r2))) = int (length (rows_Next example_rows)) \<and>
        \<not> Truncated (fst (snd (fst ?r2))))"
    by (rule runQuery_row_limit [where h = example_handler_limit2 and rows = example_rows
          and cols = "Some [''id'', ''name'']" and err = "snd (snd (fst ?r2))"
          and events = "snd ?r2", OF adm2])
       (simp_all add: example_handler_limit2_def main_handler_def example_db_def
          example_rows_def example_config_def)
  have three:
    "\<not> IsError (fst (fst ?r)) \<and>
     Rows (fst (snd (fst ?r))) =
       Some (map (map (normalizeValue example_lib))
          [[Int64 1, Bytes ''alice''], [Int64 2, Bytes ''bob''], [Int64 3, Nil]]) \<and>
     (int (length (rows_Next example_rows)) > 1000 \<longrightarrow>
        int (length [[Int64 1, Bytes ''alice''], [Int64 2, Bytes ''bob''], [Int64 3, Nil]])
          = 1000 \<and>
        RowCount (fst (snd (fst ?r))) = 1000 \<and> Truncated (fst (snd (fst ?r)))) \<and>
     (int (length (rows_Next example_rows)) \<le> 1000 \<longrightarrow>
        rows_Next example_rows =
          map Inr [[Int64 1, Bytes ''alice''], [Int64 2, Bytes ''bob''], [Int64 3, Nil]] \<and>
        RowCount (fst (snd (fst ?r))) = int (length (rows_Next example_rows)) \<and>
        \<not> Truncated (fst (snd (fst ?r))))"
    by (rule runQuery_row_limit [where h = example_handler and rows = example_rows
          and cols = "Some [''id'', ''name'']" and err = "snd (snd (fst ?r))"
          and events = "snd ?r", OF adm])
       (simp_all add: example_handler_def main_handler_def example_db_def
          example_rows_def example_config_def)
  have many:
    "\<not> IsError (fst (fst ?rm)) \<and>
     Rows (fst (snd (fst ?rm))) =
       Some (map (map (normalizeValue example_lib)) (replicate 1000 [Int64 7, Nil])) \<and>
     (int (length (rows_Next example_rows_many)) > 1000 \<longrightarrow>
        int (length (replicate 1000 [Int64 7, Nil])) = 1000 \<and>
        RowCount (fst (snd (fst ?rm))) = 1000 \<and> Truncated (fst (snd (fst ?rm)))) \<and>
     (int (length (rows_Next example_rows_many)) \<le> 1000 \<longrightarrow>
        rows_Next example_rows_many = map Inr (replicate 1000 [Int64 7, Nil]) \<and>
        RowCount (fst (snd (fst ?rm))) = int (length (rows_Next example_rows_many)) \<and>
        \<not> Truncated (fst (snd (fst ?rm))))"
    by (rule runQuery_row_limit [where h = example_handler_many and rows = example_rows_many
          and cols = "Some [''id'', ''name'']" and err = "snd (snd (fst ?rm))"
          and events = "snd ?rm", OF admm])
       (simp_all add: example_handler_many_def main_handler_def example_db_def
          example_rows_many_def example_config_def)
  have len: "length (rows_Next example_rows) = 3" by (simp add: example_rows_def)
  have lenm: "length (rows_Next example_rows_many) = 1001" by (simp add: example_rows_many_def)
  have m2: "MaxRows (config example_handler_limit2) = 2"
    by (simp add: example_handler_limit2_def main_handler_def)
  have m0: "MaxRows (config example_handler) = 0"
    by (simp add: example_handler_def main_handler_def example_config_def)
  have mm: "MaxRows (config example_handler_many) = 0"
    by (simp add: example_handler_many_def main_handler_def example_config_def)
  from adm2 two three many len lenm m2 m0 mm show ?thesis by simp
qed

text \<open>
  Claim C6. Whenever the query is rejected by the classifier or a database call fails
  (acquiring the connection, opening the transaction, running the statement, fetching
  the columns, scanning one of the rows the loop reaches, \<open>rows.Err()\<close>, or the commit),
  \<open>runQuery\<close> returns the output with empty columns, empty rows, \<open>rowCount\<close> 0 and
  \<open>truncated\<close> false, the same in the structured content, \<open>IsError\<close> set, one text
  content that starts with one of the handler's messages, and a nil Go error. A commit
  failure is the last disjunct: the rows read before it are not returned.
\<close>

theorem runQuery_failure_shape:
  assumes "runQuery lib h input = ((result, output, err), events)"
    and "\<not> isReadOnlyQuery lib (Query input) (denySubstrings h)
       \<or> (\<exists>e. db_Conn (db h) = Some e)
       \<or> (\<exists>e. conn_BeginTx (db h) = Some e)
       \<or> (\<exists>e. tx_QueryContext (db h) (Query input) = Inl e)
       \<or> (\<exists>rows. tx_QueryContext (db h) (Query input) = Inr rows \<and>
            ((\<exists>e. rows_Columns rows = Inl e)
             \<or> (\<exists>cols i e. rows_Columns rows = Inr cols \<and> i < length (rows_Next rows) \<and>
                   int i < (if MaxRows (config h) \<le> 0 then 1000 else MaxRows (config h)) \<and>
                   rows_Scan (length (case cols of None \<Rightarrow> [] | Some cs \<Rightarrow> cs))
                     (rows_Next rows ! i) = Inl e)
             \<or> (\<exists>e. rows_Err rows = Some e)))
       \<or> (\<exists>e. tx_Commit (db h) = Some e)"
  shows "Columns output = Some [] \<and> Rows output = Some [] \<and> RowCount output = 0 \<and>
     \<not> Truncated output \<and> IsError result \<and>
     StructuredContent result =
       \<lparr>sc_columns = [], sc_rows = [], sc_rowCount = 0, sc_truncated = False\<rparr> \<and>
     (\<exists>prefix detail. Content result = [prefix @ detail] \<and> prefix \<in> set failure_prefixes) \<and>
     err = None"
proof -
  from runQuery_cases [OF assms(1)]
  consider (fail) prefix detail where
      "(result, output, err) = toolFailure (prefix @ detail)" "prefix \<in> set failure_prefixes"
    | (ok) rows cols res rc tr where
      "isReadOnlyQuery lib (Query input) (denySubstrings h)"
      "db_Conn (db h) = None" "conn_BeginTx (db h) = None"
      "tx_QueryContext (db h) (Query input) = Inr rows"
      "rows_Columns rows = Inr cols"
      "rowLoop lib (length (case cols of None \<Rightarrow> [] | Some cs \<Rightarrow> cs))
         (maxRowsOf (config h)) (rows_Next rows) [] 0 = Inr (res, rc, tr)"
      "rows_Err rows = None" "tx_Commit (db h) = None"
    by blast
  then show ?thesis
  proof cases
    case fail
    then show ?thesis by (auto simp: toolFailure_eq)
  next
    case ok
    have noscan: "\<not> (\<exists>i e. i < length (rows_Next rows) \<and> int i < maxRowsOf (config h) \<and>
        rows_Scan (length (case cols of None \<Rightarrow> [] | Some cs \<Rightarrow> cs)) (rows_Next rows ! i) = Inl e)"
    proof
      assume "\<exists>i e. i < length (rows_Next rows) \<and> int i < maxRowsOf (config h) \<and>
        rows_Scan (length (case cols of None \<Rightarrow> [] | Some cs \<Rightarrow> cs)) (rows_Next rows ! i) = Inl e"
      then obtain i e where "i < length (rows_Next rows)" "0 + int i < maxRowsOf (config h)"
        "rows_Scan (length (case cols of None \<Rightarrow> [] | Some cs \<Rightarrow> cs)) (rows_Next rows ! i) = Inl e"
        by auto
      from rowLoop_scan_failure_at [OF this, of lib "[]"] ok(6) show False by auto
    qed
    from assms(2) ok(1-5,7,8) noscan have False
      by (auto simp: maxRowsOf_def)
    then show ?thesis ..
  qed
qed

theorem runQuery_failure_shape_witness:
  "isReadOnlyQuery example_lib ''SELECT * FROM users'' (denySubstrings example_handler_commit_fails) \<and>
   length (rows_Next example_rows) = 3 \<and>
   tx_Commit (db example_handler_commit_fails) = Some ''connection lost'' \<and>
   Columns (fst (snd (fst (runQuery example_lib example_handler_commit_fails
      \<lparr>Query = ''SELECT * FROM users''\<rparr>)))) = Some [] \<and>
   Rows (fst (snd (fst (runQuery example_lib example_handler_commit_fails
      \<lparr>Query = ''SELECT * FROM users''\<rparr>)))) = Some [] \<and>
   RowCount (fst (snd (fst (runQuery example_lib example_handler_commit_fails
      \<lparr>Query = ''SELECT * FROM users''\<rparr>)))) = 0 \<and>
   \<not> Truncated (fst (snd (fst (runQuery example_lib example_handler_commit_fails
      \<lparr>Query = ''SELECT * FROM users''\<rparr>)))) \<and>
   IsError (fst (fst (runQuery example_lib example_handler_commit_fails
      \<lparr>Query = ''SELECT * FROM users''\<rparr>))) \<and>
   \<not> isReadOnlyQuery example_lib ''select 1; select 2'' (denySubstrings example_handler) \<and>
   Rows (fst (snd (fst (runQuery example_lib example_handler
      \<lparr>Query = ''select 1; select 2''\<rparr>)))) = Some [] \<and>
   IsError (fst (fst (runQuery example_lib example_handler
      \<lparr>Query = ''select 1; select 2''\<rparr>)))"
proof -
  let ?input = "\<lparr>Query = ''SELECT * FROM users''\<rparr>"
  let ?r = "runQuery example_lib example_handler_commit_fails ?input"
  let ?bad = "\<lparr>Query = ''select 1; select 2''\<rparr>"
  let ?s = "runQuery example_lib example_handler ?bad"
  have adm: "isReadOnlyQuery example_lib ''SELECT * FROM users''
      (denySubstrings example_handler_commit_fails)"
    using example_admitted
    by (simp add: example_handler_commit_fails_def main_handler_def example_config_def)
  have rej: "\<not> isReadOnlyQuery example_lib ''select 1; select 2'' (denySubstrings example_handler)"
    using example_rejected
    by (simp add: example_handler_def main_handler_def example_config_def)
  have commit: "tx_Commit (db example_handler_commit_fails) = Some ''connection lost''"
    by (simp add: example_handler_commit_fails_def main_handler_def)
  have len: "length (rows_Next example_rows) = 3" by (simp add: example_rows_def)
  have a: "Columns (fst (snd (fst ?r))) = Some [] \<and> Rows (fst (snd (fst ?r))) = Some [] \<and>
     RowCount (fst (snd (fst ?r))) = 0 \<and> \<not> Truncated (fst (snd (fst ?r))) \<and>
     IsError (fst (fst ?r)) \<and>
     StructuredContent (fst (fst ?r)) =
       \<lparr>sc_columns = [], sc_rows = [], sc_rowCount = 0, sc_truncated = False\<rparr> \<and>
     (\<exists>prefix detail. Content (fst (fst ?r)) = [prefix @ detail] \<and>
        prefix \<in> set failure_prefixes) \<and>
     snd (snd (fst ?r)) = None"
    by (rule runQuery_failure_shape [where events = "snd ?r"]) (simp, use commit in blast)
  have b: "Columns (fst (snd (fst ?s))) = Some [] \<and> Rows (fst (snd (fst ?s))) = Some [] \<and>
     RowCount (fst (snd (fst ?s))) = 0 \<and> \<not> Truncated (fst (snd (fst ?s))) \<and>
     IsError (fst (fst ?s)) \<and>
     StructuredContent (fst (fst ?s)) =
       \<lparr>sc_columns = [], sc_rows = [], sc_rowCount = 0, sc_truncated = False\<rparr> \<and>
     (\<exists>prefix detail. Content (fst (fst ?s)) = [prefix @ detail] \<and>
        prefix \<in> set failure_prefixes) \<and>
     snd (snd (fst ?s)) = None"
    by (rule runQuery_failure_shape [where events = "snd ?s"]) (simp, use rej in simp)
  from adm rej commit len a b show ?thesis by simp
qed

text \<open>
  Claim C7. Every result \<open>runQuery\<close> returns without \<open>IsError\<close>, and every result
  \<open>runQueryForResource\<close> returns with a nil error, has non-nil columns and rows,
  \<open>rowCount\<close> equal to the number of rows and at most the row limit, and rows that all
  have as many values as there are columns.
\<close>

theorem query_result_invariant:
  "(runQuery lib h input = ((result, output, err), events) \<and> \<not> IsError result \<longrightarrow>
      (\<exists>cols rs. Columns output = Some cols \<and> Rows output = Some rs \<and>
         RowCount output = int (length rs) \<and>
         RowCount output \<le> (if MaxRows (config h) \<le> 0 then 1000 else MaxRows (config h)) \<and>
         (\<forall>row \<in> set rs. length row = length cols) \<and>
         sc_columns (StructuredContent result) = cols \<and>
         sc_rows (StructuredContent result) = rs \<and>
         sc_rowCount (StructuredContent result) = int (length rs)))
   \<and> (runQueryForResource lib h query = ((output', None), events') \<longrightarrow>
      (\<exists>cols rs. Columns output' = Some cols \<and> Rows output' = Some rs \<and>
         RowCount output' = int (length rs) \<and>
         RowCount output' \<le> (if MaxRows (config h) \<le> 0 then 1000 else MaxRows (config h)) \<and>
         (\<forall>row \<in> set rs. length row = length cols)))"
proof (intro conjI impI)
  assume a: "runQuery lib h input = ((result, output, err), events) \<and> \<not> IsError result"
  from runQuery_ok_output [OF conjunct1 [OF a] conjunct2 [OF a]]
  obtain rows :: sql_Rows and cols res rc tr where
    loop: "rowLoop lib (length (case cols of None \<Rightarrow> [] | Some cs \<Rightarrow> cs))
       (maxRowsOf (config h)) (rows_Next rows) [] 0 = Inr (res, rc, tr)"
    and out: "output = \<lparr>Columns = Some (case cols of None \<Rightarrow> [] | Some cs \<Rightarrow> cs),
       Rows = Some res, RowCount = rc, Truncated = tr\<rparr>"
    and res: "result = \<lparr>Content = [''ok''],
       StructuredContent = queryOutputToStructuredContent output, IsError = False\<rparr>"
    by blast
  from rowLoop_output_invariant [OF loop] out res
  show "\<exists>cols rs. Columns output = Some cols \<and> Rows output = Some rs \<and>
         RowCount output = int (length rs) \<and>
         RowCount output \<le> (if MaxRows (config h) \<le> 0 then 1000 else MaxRows (config h)) \<and>
         (\<forall>row \<in> set rs. length row = length cols) \<and>
         sc_columns (StructuredContent result) = cols \<and>
         sc_rows (StructuredContent result) = rs \<and>
         sc_rowCount (StructuredContent result) = int (length rs)"
    by (simp add: maxRowsOf_def queryOutputToStructuredContent_def)
next
  assume a: "runQueryForResource lib h query = ((output', None), events')"
  from runQueryForResource_ok_output [OF a]
  obtain rows :: sql_Rows and cols res rc tr where
    loop: "rowLoop lib (length (case cols of None \<Rightarrow> [] | Some cs \<Rightarrow> cs))
       (maxRowsOf (config h)) (rows_Next rows) [] 0 = Inr (res, rc, tr)"
    and out: "output' = \<lparr>Columns = Some (case cols of None \<Rightarrow> [] | Some cs \<Rightarrow> cs),
       Rows = Some res, RowCount = rc, Truncated = tr\<rparr>"
    by blast
  from rowLoop_output_invariant [OF loop] out
  show "\<exists>cols rs. Columns output' = Some cols \<and> Rows output' = Some rs \<and>
         RowCount output' = int (length rs) \<and>
         RowCount output' \<le> (if MaxRows (config h) \<le> 0 then 1000 else MaxRows (config h)) \<and>
         (\<forall>row \<in> set rs. length row = length cols)"
    by (simp add: maxRowsOf_def)
qed

theorem query_result_invariant_witness:
  "\<not> IsError (fst (fst (runQuery example_lib example_handler
        \<lparr>Query = ''SELECT * FROM users''\<rparr>))) \<and>
   (\<exists>cols rs.
      Columns (fst (snd (fst (runQuery example_lib example_handler
        \<lparr>Query = ''SELECT * FROM users''\<rparr>)))) = Some cols \<and>
      Rows (fst (snd (fst (runQuery example_lib example_handler
        \<lparr>Query = ''SELECT * FROM users''\<rparr>)))) = Some rs \<and>
      RowCount (fst (snd (fst (runQuery example_lib example_handler
        \<lparr>Query = ''SELECT * FROM users''\<rparr>)))) = int (length rs) \<and>
      RowCount (fst (snd (fst (runQuery example_lib example_handler
        \<lparr>Query = ''SELECT * FROM users''\<rparr>)))) \<le> 1000 \<and>
      (\<forall>row \<in> set rs. length row = length cols)) \<and>
   snd (fst (runQueryForResource example_lib example_handler ''SHOW DATABASES'')) = None \<and>
   (\<exists>cols rs.
      Columns (fst (fst (runQueryForResource example_lib example_handler ''SHOW DATABASES'')))
        = Some cols \<and>
      Rows (fst (fst (runQueryForResource example_lib example_handler ''SHOW DATABASES'')))
        = Some rs \<and>
      RowCount (fst (fst (runQueryForResource example_lib example_handler ''SHOW DATABASES'')))
        = int (length rs) \<and>
      RowCount (fst (fst (runQueryForResource example_lib example_handler ''SHOW DATABASES'')))
        \<le> 1000 \<and>
      (\<forall>row \<in> set rs. length row = length cols))"
proof -
  let ?r = "runQuery example_lib example_handler \<lparr>Query = ''SELECT * FROM users''\<rparr>"
  let ?s = "runQueryForResource example_lib example_handler ''SHOW DATABASES''"
  have r: "?r = ((fst (fst ?r), fst (snd (fst ?r)), snd (snd (fst ?r))), snd ?r)" by simp
  have s: "?s = ((fst (fst ?s), None), snd ?s)"
    using example_resource_ok by (metis prod.collapse)
  have m: "(if MaxRows (config example_handler) \<le> 0 then 1000
            else MaxRows (config example_handler)) = 1000"
    by (simp add: example_handler_def main_handler_def example_config_def)
  note inst = query_result_invariant [of example_lib example_handler "\<lparr>Query = ''SELECT * FROM users''\<rparr>"
      "fst (fst ?r)" "fst (snd (fst ?r))" "snd (snd (fst ?r))" "snd ?r"
      "''SHOW DATABASES''" "fst (fst ?s)" "snd ?s", unfolded m]
  from inst r example_run_ok have a: "\<exists>cols rs.
      Columns (fst (snd (fst ?r))) = Some cols \<and> Rows (fst (snd (fst ?r))) = Some rs \<and>
      RowCount (fst (snd (fst ?r))) = int (length rs) \<and>
      RowCount (fst (snd (fst ?r))) \<le> 1000 \<and>
      (\<forall>row \<in> set rs. length row = length cols)"
    by blast
  from inst s have b: "\<exists>cols rs.
      Columns (fst (fst ?s)) = Some cols \<and> Rows (fst (fst ?s)) = Some rs \<and>
      RowCount (fst (fst ?s)) = int (length rs) \<and>
      RowCount (fst (fst ?s)) \<le> 1000 \<and>
      (\<forall>row \<in> set rs. length row = length cols)"
    by blast
  from a b example_run_ok example_resource_ok show ?thesis by blast
qed

text \<open>
  Claim C9. For a query the classifier rejects, \<open>runQuery\<close> and \<open>runQueryForResource\<close>
  return at once with an empty list of database calls: no connection, no transaction, no
  statement. \<open>runQuery\<close> reports the rejection in its result (\<open>IsError\<close> set, the message
  \<open>only read-only queries are allowed\<close>, a nil Go error), \<open>runQueryForResource\<close> as an
  error with the same message.
\<close>

theorem rejected_query_never_reaches_database:
  assumes "\<not> isReadOnlyQuery lib query (denySubstrings h)"
  shows "runQuery lib h \<lparr>Query = query\<rparr> =
      ((\<lparr>Content = [''only read-only queries are allowed''],
         StructuredContent =
           \<lparr>sc_columns = [], sc_rows = [], sc_rowCount = 0, sc_truncated = False\<rparr>,
         IsError = True\<rparr>,
        \<lparr>Columns = Some [], Rows = Some [], RowCount = 0, Truncated = False\<rparr>,
        None), [])
    \<and> runQueryForResource lib h query =
      ((\<lparr>Columns = None, Rows = None, RowCount = 0, Truncated = False\<rparr>,
        Some ''only read-only queries are allowed''), [])"
  using assms by (simp add: runQuery_def runQueryForResource_def toolFailure_eq resourceFailure_def)

theorem rejected_query_never_reaches_database_witness:
  "\<not> isReadOnlyQuery example_lib ''select 1; select 2'' (denySubstrings example_handler) \<and>
   snd (runQuery example_lib example_handler \<lparr>Query = ''select 1; select 2''\<rparr>) = [] \<and>
   IsError (fst (fst (runQuery example_lib example_handler \<lparr>Query = ''select 1; select 2''\<rparr>))) \<and>
   Content (fst (fst (runQuery example_lib example_handler \<lparr>Query = ''select 1; select 2''\<rparr>)))
     = [''only read-only queries are allowed''] \<and>
   snd (snd (fst (runQuery example_lib example_handler \<lparr>Query = ''select 1; select 2''\<rparr>))) = None \<and>
   snd (runQueryForResource example_lib example_handler ''select 1; select 2'') = [] \<and>
   snd (fst (runQueryForResource example_lib example_handler ''select 1; select 2''))
     = Some ''only read-only queries are allowed''"
proof -
  have rej: "\<not> isReadOnlyQuery example_lib ''select 1; select 2'' (denySubstrings example_handler)"
    using example_rejected
    by (simp add: example_handler_def main_handler_def example_config_def)
  from rejected_query_never_reaches_database [OF rej] rej show ?thesis by simp
qed

text \<open>An admitted query does reach the database: the first call is for a connection.\<close>

lemma admitted_reaches_database:
  assumes "isReadOnlyQuery lib query (denySubstrings h)"
  shows "hd (snd (runQuery lib h \<lparr>Query = query\<rparr>)) = AcquireConn"
    and "hd (snd (runQueryForResource lib h query)) = AcquireConn"
  using assms
  by (auto simp: runQuery_def runQueryForResource_def Let_def split: option.splits sum.splits)

section \<open>Value normalization\<close>

text \<open>
  Claim C8. \<open>normalizeValue\<close> is defined on every value: nil stays nil, a byte slice
  becomes the string of the same bytes, a time becomes the text \<open>Format\<close> gives for that
  instant in UTC under the layout \<open>RFC3339Nano\<close>, and every other value is returned as it
  is. No byte slice and no time is left in a result.
\<close>

theorem normalizeValue_total:
  "normalizeValue lib Nil = Nil
   \<and> normalizeValue lib (Bytes b) = String b
   \<and> normalizeValue lib (TimeV t) =
       String (time_Format lib (t\<lparr>loc := UTC\<rparr>) ''2006-01-02T15:04:05.999999999Z07:00'')
   \<and> (v \<noteq> Nil \<and> (\<forall>b'. v \<noteq> Bytes b') \<and> (\<forall>t'. v \<noteq> TimeV t') \<longrightarrow> normalizeValue lib v = v)
   \<and> (\<forall>b'. normalizeValue lib v \<noteq> Bytes b') \<and> (\<forall>t'. normalizeValue lib v \<noteq> TimeV t')"
  by (cases v) (simp_all add: RFC3339Nano_def time_UTC_def)

theorem normalizeValue_total_witness:
  "Int64 42 \<noteq> Nil \<and> normalizeValue example_lib (Int64 42) = Int64 42 \<and>
   normalizeValue example_lib (String ''x'') = String ''x'' \<and>
   normalizeValue example_lib (Bytes ''hello'') = String ''hello''"
proof -
  have a: "Int64 42 \<noteq> Nil \<and> (\<forall>b'. Int64 42 \<noteq> Bytes b') \<and> (\<forall>t'. Int64 42 \<noteq> TimeV t')" by simp
  have b: "String ''x'' \<noteq> Nil \<and> (\<forall>b'. String ''x'' \<noteq> Bytes b') \<and> (\<forall>t'. String ''x'' \<noteq> TimeV t')"
    by simp
  from normalizeValue_total [of example_lib "''hello''" _ "Int64 42"] normalizeValue_total [of example_lib _ _ "String ''x''"] a b
  show ?thesis by blast
qed

section \<open>The resource router\<close>

lemma identChar_iff:
  "identChar c \<longleftrightarrow>
     c \<in> set ''ABCDEFGHIJKLMNOPQRSTUVWXYZabcdefghijklmnopqrstuvwxyz0123456789_''"
proof (cases c)
  case (Char b0 b1 b2 b3 b4 b5 b6 b7)
  show ?thesis
    unfolding Char identChar_def Let_def
    by (cases b0; cases b1; cases b2; cases b3; cases b4; cases b5; cases b6; cases b7) simp_all
qed

lemma mysqlIdentifierRE_iff:
  "mysqlIdentifierRE s \<longleftrightarrow>
     s \<noteq> [] \<and> set s \<subseteq> set ''ABCDEFGHIJKLMNOPQRSTUVWXYZabcdefghijklmnopqrstuvwxyz0123456789_''"
  unfolding mysqlIdentifierRE_def list_all_iff
  using identChar_iff by blast

lemma resourceQuery_not_found:
  assumes "url_Parse lib uri = Inr u"
    and "ToLower lib (Scheme u) \<noteq> ''mysql''
       \<or> ToLower lib (Host u) \<notin> {''databases'', ''tables'', ''schema''}
       \<or> (ToLower lib (Host u) = ''databases'' \<and> length (pathPartsOf u) \<noteq> 0)
       \<or> (ToLower lib (Host u) = ''tables'' \<and> length (pathPartsOf u) \<noteq> 1)
       \<or> (ToLower lib (Host u) = ''schema'' \<and> length (pathPartsOf u) \<noteq> 2)
       \<or> (\<exists>seg \<in> set (pathPartsOf u). \<not> mysqlIdentifierRE seg)"
  shows "resourceQuery lib uri = Inl (ResourceNotFoundError uri)"
proof -
  have two: "length xs = 2 \<Longrightarrow> set xs = {xs ! 0, xs ! 1}" for xs :: "string list"
    by (cases xs; cases "tl xs") auto
  have one: "length xs = 1 \<Longrightarrow> set xs = {xs ! 0}" for xs :: "string list"
    by (cases xs) auto
  from assms show ?thesis
    by (auto simp: resourceQuery_def Let_def one two)
qed

text \<open>A locator \<open>url.Parse\<close> refuses is answered with the parse error, before any query.\<close>

lemma readResource_parse_error:
  "url_Parse lib uri = Inl e \<Longrightarrow> readResource lib h uri = (Inl (PlainError e), [])"
  by (simp add: readResource_def resourceQuery_def)

text \<open>What \<open>readResource\<close> does with a locator \<open>url.Parse\<close> accepts.\<close>

lemma readResource_parsed_locator:
  assumes "url_Parse lib uri = Inr u"
  shows "(ToLower lib (Scheme u) \<noteq> ''mysql''
       \<or> ToLower lib (Host u) \<notin> {''databases'', ''tables'', ''schema''}
       \<or> (ToLower lib (Host u) = ''databases'' \<and> length (pathPartsOf u) \<noteq> 0)
       \<or> (ToLower lib (Host u) = ''tables'' \<and> length (pathPartsOf u) \<noteq> 1)
       \<or> (ToLower lib (Host u) = ''schema'' \<and> length (pathPartsOf u) \<noteq> 2)
       \<or> (\<exists>seg \<in> set (pathPartsOf u). \<not> mysqlIdentifierRE seg)
      \<longrightarrow> readResource lib h uri = (Inl (ResourceNotFoundError uri), []))
   \<and> (ToLower lib (Scheme u) = ''mysql'' \<and> ToLower lib (Host u) = ''databases'' \<and>
      pathPartsOf u = []
      \<longrightarrow> resourceQuery lib uri = Inr ''SHOW DATABASES'')
   \<and> (ToLower lib (Scheme u) = ''mysql'' \<and> ToLower lib (Host u) = ''tables'' \<and>
      pathPartsOf u = [dbname] \<and> mysqlIdentifierRE dbname
      \<longrightarrow> resourceQuery lib uri = Inr (''SHOW TABLES FROM `'' @ dbname @ ''`''))
   \<and> (ToLower lib (Scheme u) = ''mysql'' \<and> ToLower lib (Host u) = ''schema'' \<and>
      pathPartsOf u = [dbname, table] \<and> mysqlIdentifierRE dbname \<and> mysqlIdentifierRE table
      \<longrightarrow> resourceQuery lib uri = Inr (''DESCRIBE `'' @ dbname @ ''`.`'' @ table @ ''`''))
   \<and> (resourceQuery lib uri = Inr query
      \<longrightarrow> snd (readResource lib h uri) = snd (runQueryForResource lib h query))"
proof (intro conjI impI)
  assume "ToLower lib (Scheme u) \<noteq> ''mysql''
       \<or> ToLower lib (Host u) \<notin> {''databases'', ''tables'', ''schema''}
       \<or> (ToLower lib (Host u) = ''databases'' \<and> length (pathPartsOf u) \<noteq> 0)
       \<or> (ToLower lib (Host u) = ''tables'' \<and> length (pathPartsOf u) \<noteq> 1)
       \<or> (ToLower lib (Host u) = ''schema'' \<and> length (pathPartsOf u) \<noteq> 2)
       \<or> (\<exists>seg \<in> set (pathPartsOf u). \<not> mysqlIdentifierRE seg)"
  from resourceQuery_not_found [OF assms this]
  show "readResource lib h uri = (Inl (ResourceNotFoundError uri), [])"
    by (simp add: readResource_def)
next
  assume "ToLower lib (Scheme u) = ''mysql'' \<and> ToLower lib (Host u) = ''databases'' \<and>
      pathPartsOf u = []"
  with assms show "resourceQuery lib uri = Inr ''SHOW DATABASES''"
    by (simp add: resourceQuery_def)
next
  assume "ToLower lib (Scheme u) = ''mysql'' \<and> ToLower lib (Host u) = ''tables'' \<and>
      pathPartsOf u = [dbname] \<and> mysqlIdentifierRE dbname"
  with assms show "resourceQuery lib uri = Inr (''SHOW TABLES FROM `'' @ dbname @ ''`'')"
    by (simp add: resourceQuery_def)
next
  assume "ToLower lib (Scheme u) = ''mysql'' \<and> ToLower lib (Host u) = ''schema'' \<and>
      pathPartsOf u = [dbname, table] \<and> mysqlIdentifierRE dbname \<and> mysqlIdentifierRE table"
  with assms
  show "resourceQuery lib uri = Inr (''DESCRIBE `'' @ dbname @ ''`.`'' @ table @ ''`'')"
    by (simp add: resourceQuery_def)
next
  assume "resourceQuery lib uri = Inr query"
  then show "snd (readResource lib h uri) = snd (runQueryForResource lib h query)"
    by (simp add: readResource_def split: prod.splits option.splits sum.splits)
qed

text \<open>
  Claim C5, as the code has it. \<open>readResource\<close> first hands the locator to \<open>url.Parse\<close>.
  When \<open>url.Parse\<close> accepts it, as \<open>u\<close>: if the scheme is not \<open>mysql\<close>, or the host is none
  of \<open>databases\<close>, \<open>tables\<close>, \<open>schema\<close>, or the number of path segments is not the 0, 1 or
  2 the host asks for, or some path segment does not match \<open>^[A-Za-z0-9_]+$\<close>, then
  \<open>readResource\<close> returns the resource-not-found error and makes no database call; with
  the right number of matching segments the query handed to \<open>runQueryForResource\<close> is
  \<open>SHOW DATABASES\<close>, \<open>SHOW TABLES FROM\<close> the quoted database, or \<open>DESCRIBE\<close> the quoted
  database and table, and the database calls of \<open>readResource\<close> are those of
  \<open>runQueryForResource\<close> on that query. When \<open>url.Parse\<close> refuses the locator,
  \<open>readResource\<close> returns the parse error itself, not the resource-not-found error, and
  makes no database call either.
\<close>

theorem readResource_by_locator:
  "(url_Parse lib uri = Inr u \<longrightarrow>
      (ToLower lib (Scheme u) \<noteq> ''mysql''
         \<or> ToLower lib (Host u) \<notin> {''databases'', ''tables'', ''schema''}
         \<or> (ToLower lib (Host u) = ''databases'' \<and> length (pathPartsOf u) \<noteq> 0)
         \<or> (ToLower lib (Host u) = ''tables'' \<and> length (pathPartsOf u) \<noteq> 1)
         \<or> (ToLower lib (Host u) = ''schema'' \<and> length (pathPartsOf u) \<noteq> 2)
         \<or> (\<exists>seg \<in> set (pathPartsOf u). \<not> mysqlIdentifierRE seg)
        \<longrightarrow> readResource lib h uri = (Inl (ResourceNotFoundError uri), []))
      \<and> (ToLower lib (Scheme u) = ''mysql'' \<and> ToLower lib (Host u) = ''databases'' \<and>
         pathPartsOf u = []
         \<longrightarrow> resourceQuery lib uri = Inr ''SHOW DATABASES'')
      \<and> (ToLower lib (Scheme u) = ''mysql'' \<and> ToLower lib (Host u) = ''tables'' \<and>
         pathPartsOf u = [dbname] \<and> mysqlIdentifierRE dbname
         \<longrightarrow> resourceQuery lib uri = Inr (''SHOW TABLES FROM `'' @ dbname @ ''`''))
      \<and> (ToLower lib (Scheme u) = ''mysql'' \<and> ToLower lib (Host u) = ''schema'' \<and>
         pathPartsOf u = [dbname, table] \<and> mysqlIdentifierRE dbname \<and>
         mysqlIdentifierRE table
         \<longrightarrow> resourceQuery lib uri = Inr (''DESCRIBE `'' @ dbname @ ''`.`'' @ table @ ''`''))
      \<and> (resourceQuery lib uri = Inr query
         \<longrightarrow> snd (readResource lib h uri) = snd (runQueryForResource lib h query)))
   \<and> (url_Parse lib uri = Inl e \<longrightarrow>
        readResource lib h uri = (Inl (PlainError e), []) \<and>
        readResource lib h uri \<noteq> (Inl (ResourceNotFoundError uri), []))"
  (is "(_ \<longrightarrow> ?parsed) \<and> (_ \<longrightarrow> ?refused)")
proof (rule conjI)
  show "url_Parse lib uri = Inr u \<longrightarrow> ?parsed"
    by (rule impI) (rule readResource_parsed_locator)
next
  show "url_Parse lib uri = Inl e \<longrightarrow> ?refused"
    by (simp add: readResource_parse_error)
qed

theorem readResource_by_locator_witness:
  "url_Parse example_lib ''mysql://tables/my-db; drop'' =
     Inr \<lparr>Scheme = ''mysql'', Host = ''tables'', Path = ''/my-db; drop''\<rparr> \<and>
   pathPartsOf \<lparr>Scheme = ''mysql'', Host = ''tables'', Path = ''/my-db; drop''\<rparr>
     = [''my-db; drop''] \<and>
   \<not> mysqlIdentifierRE ''my-db; drop'' \<and>
   readResource example_lib example_handler ''mysql://tables/my-db; drop'' =
     (Inl (ResourceNotFoundError ''mysql://tables/my-db; drop''), []) \<and>
   resourceQuery example_lib ''mysql://databases'' = Inr ''SHOW DATABASES'' \<and>
   mysqlIdentifierRE ''my_db'' \<and> mysqlIdentifierRE ''users'' \<and>
   resourceQuery example_lib ''mysql://tables/my_db'' = Inr ''SHOW TABLES FROM `my_db`'' \<and>
   resourceQuery example_lib ''mysql://schema/my_db/users'' = Inr ''DESCRIBE `my_db`.`users`'' \<and>
   snd (readResource example_lib example_handler ''mysql://tables/my_db'') =
     snd (runQueryForResource example_lib example_handler ''SHOW TABLES FROM `my_db`'') \<and>
   url_Parse example_lib ''mysql://tables/%zz'' = Inl example_escape_error \<and>
   readResource example_lib example_handler ''mysql://tables/%zz'' =
     (Inl (PlainError example_escape_error), [])"
proof -
  let ?bad = "\<lparr>Scheme = ''mysql'', Host = ''tables'', Path = ''/my-db; drop''\<rparr>"
  let ?dbs = "\<lparr>Scheme = ''mysql'', Host = ''databases'', Path = []\<rparr>"
  let ?tab = "\<lparr>Scheme = ''mysql'', Host = ''tables'', Path = ''/my_db''\<rparr>"
  let ?sch = "\<lparr>Scheme = ''mysql'', Host = ''schema'', Path = ''/my_db/users''\<rparr>"
  note parsed = readResource_by_locator [THEN conjunct1, THEN mp]
  note refused = readResource_by_locator [THEN conjunct2, THEN mp, THEN conjunct1]
  have p1: "url_Parse example_lib ''mysql://tables/my-db; drop'' = Inr ?bad"
    and p2: "url_Parse example_lib ''mysql://databases'' = Inr ?dbs"
    and p3: "url_Parse example_lib ''mysql://tables/my_db'' = Inr ?tab"
    and p4: "url_Parse example_lib ''mysql://schema/my_db/users'' = Inr ?sch"
    and p5: "url_Parse example_lib ''mysql://tables/%zz'' = Inl example_escape_error"
    by (simp_all add: example_lib_def example_url_Parse_def)
  have low: "ToLower example_lib ''mysql'' = ''mysql''"
    "ToLower example_lib ''tables'' = ''tables''"
    "ToLower example_lib ''databases'' = ''databases''"
    "ToLower example_lib ''schema'' = ''schema''"
    by code_simp+
  have parts: "pathPartsOf ?bad = [''my-db; drop'']" "pathPartsOf ?dbs = []"
    "pathPartsOf ?tab = [''my_db'']" "pathPartsOf ?sch = [''my_db'', ''users'']"
    by (simp_all add: pathPartsOf_def TrimPrefix_def)
  have ids: "\<not> mysqlIdentifierRE ''my-db; drop''" "mysqlIdentifierRE ''my_db''"
    "mysqlIdentifierRE ''users''"
    by (simp_all add: mysqlIdentifierRE_iff)
  from parsed [OF p1, of example_handler] parts ids
  have a: "readResource example_lib example_handler ''mysql://tables/my-db; drop'' =
     (Inl (ResourceNotFoundError ''mysql://tables/my-db; drop''), [])"
    by simp
  from parsed [OF p2] low parts
  have b: "resourceQuery example_lib ''mysql://databases'' = Inr ''SHOW DATABASES''"
    by simp
  from parsed [OF p3, of _ "''my_db''"] low parts ids
  have c: "resourceQuery example_lib ''mysql://tables/my_db'' = Inr ''SHOW TABLES FROM `my_db`''"
    by simp
  from parsed [OF p4, of _ "''my_db''" "''users''"] low parts ids
  have d: "resourceQuery example_lib ''mysql://schema/my_db/users'' = Inr ''DESCRIBE `my_db`.`users`''"
    by simp
  from parsed [OF p3, of example_handler _ _ "''SHOW TABLES FROM `my_db`''"] c
  have e: "snd (readResource example_lib example_handler ''mysql://tables/my_db'') =
     snd (runQueryForResource example_lib example_handler ''SHOW TABLES FROM `my_db`'')"
    by simp
  from refused [OF p5, of example_handler]
  have f: "readResource example_lib example_handler ''mysql://tables/%zz'' =
     (Inl (PlainError example_escape_error), [])" .
  from p1 parts ids a b c d e p5 f show ?thesis by simp
qed

text \<open>
  The claim as the specification words it, not-found for every locator with a path segment
  outside the identifier pattern, fails on \<open>mysql://tables/%zz\<close>. The text after
  \<open>mysql://tables/\<close> is the one segment \<open>%zz\<close>, which does not match
  \<open>^[A-Za-z0-9_]+$\<close>; \<open>url.Parse\<close> refuses the locator for its escape, and lines 333 to
  336 return that error as it is.
\<close>

theorem readResource_unparsed_locator_counterexample:
  "TrimPrefix ''mysql://tables/%zz'' ''mysql://tables/'' = ''%zz'' \<and>
   Split ''%zz'' (CHR ''/'') = [''%zz''] \<and>
   \<not> mysqlIdentifierRE ''%zz'' \<and>
   url_Parse example_lib ''mysql://tables/%zz'' = Inl example_escape_error \<and>
   readResource example_lib example_handler ''mysql://tables/%zz'' =
     (Inl (PlainError example_escape_error), []) \<and>
   readResource example_lib example_handler ''mysql://tables/%zz'' \<noteq>
     (Inl (ResourceNotFoundError ''mysql://tables/%zz''), [])"
proof -
  have t: "TrimPrefix ''mysql://tables/%zz'' ''mysql://tables/'' = ''%zz''"
    by (simp add: TrimPrefix_def)
  have s: "Split ''%zz'' (CHR ''/'') = [''%zz'']" by simp
  have i: "\<not> mysqlIdentifierRE ''%zz''" by (simp add: mysqlIdentifierRE_iff)
  have p: "url_Parse example_lib ''mysql://tables/%zz'' = Inl example_escape_error"
    by (simp add: example_lib_def example_url_Parse_def)
  have r: "readResource example_lib example_handler ''mysql://tables/%zz'' =
     (Inl (PlainError example_escape_error), [])"
    using p by (rule readResource_parse_error)
  from t s i p r show ?thesis by simp
qed

section \<open>Startup\<close>

lemma normalizeList_filter:
  "normalizeList lib values =
     filter (\<lambda>s. s \<noteq> []) (map (\<lambda>v. TrimSpace lib (ToLower lib v)) values)"
  by (induction "values") (simp_all add: Let_def)

lemma default_normalized:
  "normalizeList lib defaultDenySubstrings =
     [''into outfile'', ''into dumpfile'', ''for update'', ''lock in share mode'']"
  by (simp add: defaultDenySubstrings_def Let_def ToLower_def isASCII_def RuneSelf_def
      lowerASCII_def isUpperASCII_def asciiSpace_def)

lemma loadConfig_default_deny:
  "length (DenySubstrings cfg0) = 0 \<Longrightarrow> loadConfig (Inr cfg0) = Inr cfg \<Longrightarrow>
   DenySubstrings cfg = defaultDenySubstrings"
  by (auto simp: loadConfig_def Let_def split: if_splits)

lemma for_update_shape:
  "''for update'' \<noteq> []" "map lowerASCII ''for update'' = ''for update''"
  "\<not> asciiSpace (hd ''for update'')" "\<not> asciiSpace (last ''for update'')"
  by (simp_all add: lowerASCII_def isUpperASCII_def asciiSpace_def)

text \<open>
  Claim C10. The deny list of the handler \<open>main\<close> builds is the configured list with each
  entry lower-cased and trimmed and the entries that are then empty removed. A query
  whose normalized text contains the trimmed form of a configured entry is rejected; an
  entry that is empty after trimming changes nothing. With the default entries of
  \<open>loadConfig\<close> the handler's list is \<open>into outfile\<close>, \<open>into dumpfile\<close>, \<open>for update\<close>,
  \<open>lock in share mode\<close>, without the leading spaces, so that a query whose normalized text
  contains \<open>for update\<close>, and every ASCII query that contains it, is rejected.
\<close>

theorem main_handler_deny_list_normalized:
  "denySubstrings (main_handler lib d cfg) =
      filter (\<lambda>s. s \<noteq> []) (map (\<lambda>v. TrimSpace lib (ToLower lib v)) (DenySubstrings cfg))
   \<and> (v \<in> set (DenySubstrings cfg) \<and> TrimSpace lib (ToLower lib v) \<noteq> [] \<and>
      Contains (TrimSpace lib (ToLower lib query)) (TrimSpace lib (ToLower lib v))
      \<longrightarrow> \<not> isReadOnlyQuery lib query (denySubstrings (main_handler lib d cfg)))
   \<and> (TrimSpace lib (ToLower lib v) = []
      \<longrightarrow> denySubstrings (main_handler lib d (cfg\<lparr>DenySubstrings := xs @ v # ys\<rparr>)) =
          denySubstrings (main_handler lib d (cfg\<lparr>DenySubstrings := xs @ ys\<rparr>)))
   \<and> (length (DenySubstrings cfg0) = 0 \<and> loadConfig (Inr cfg0) = Inr cfg
      \<longrightarrow> denySubstrings (main_handler lib d cfg) =
            [''into outfile'', ''into dumpfile'', ''for update'', ''lock in share mode''] \<and>
          (Contains (TrimSpace lib (ToLower lib query)) ''for update''
            \<longrightarrow> \<not> isReadOnlyQuery lib query (denySubstrings (main_handler lib d cfg))) \<and>
          (isASCII query \<and> Contains query ''for update''
            \<longrightarrow> \<not> isReadOnlyQuery lib query (denySubstrings (main_handler lib d cfg))))"
proof (intro conjI impI)
  show "denySubstrings (main_handler lib d cfg) =
      filter (\<lambda>s. s \<noteq> []) (map (\<lambda>v. TrimSpace lib (ToLower lib v)) (DenySubstrings cfg))"
    by (simp add: main_handler_def normalizeList_filter)
next
  assume a: "v \<in> set (DenySubstrings cfg) \<and> TrimSpace lib (ToLower lib v) \<noteq> [] \<and>
      Contains (TrimSpace lib (ToLower lib query)) (TrimSpace lib (ToLower lib v))"
  then have "denied (TrimSpace lib (ToLower lib query)) (denySubstrings (main_handler lib d cfg))"
    unfolding denied_iff main_handler_def normalizeList_filter by auto
  then show "\<not> isReadOnlyQuery lib query (denySubstrings (main_handler lib d cfg))"
    by (simp add: isReadOnlyQuery_def Let_def)
next
  assume "TrimSpace lib (ToLower lib v) = []"
  then show "denySubstrings (main_handler lib d (cfg\<lparr>DenySubstrings := xs @ v # ys\<rparr>)) =
          denySubstrings (main_handler lib d (cfg\<lparr>DenySubstrings := xs @ ys\<rparr>))"
    by (simp add: main_handler_def normalizeList_filter)
next
  assume a: "length (DenySubstrings cfg0) = 0 \<and> loadConfig (Inr cfg0) = Inr cfg"
  then have "DenySubstrings cfg = defaultDenySubstrings"
    using loadConfig_default_deny by blast
  then show "denySubstrings (main_handler lib d cfg) =
            [''into outfile'', ''into dumpfile'', ''for update'', ''lock in share mode'']"
    by (simp add: main_handler_def default_normalized)
next
  assume a: "length (DenySubstrings cfg0) = 0 \<and> loadConfig (Inr cfg0) = Inr cfg"
    and c: "Contains (TrimSpace lib (ToLower lib query)) ''for update''"
  from a have "DenySubstrings cfg = defaultDenySubstrings"
    using loadConfig_default_deny by blast
  then have "denySubstrings (main_handler lib d cfg) =
            [''into outfile'', ''into dumpfile'', ''for update'', ''lock in share mode'']"
    by (simp add: main_handler_def default_normalized)
  with c have "denied (TrimSpace lib (ToLower lib query)) (denySubstrings (main_handler lib d cfg))"
    by simp
  then show "\<not> isReadOnlyQuery lib query (denySubstrings (main_handler lib d cfg))"
    by (simp add: isReadOnlyQuery_def Let_def)
next
  assume a: "length (DenySubstrings cfg0) = 0 \<and> loadConfig (Inr cfg0) = Inr cfg"
    and q: "isASCII query \<and> Contains query ''for update''"
  from q have c: "Contains (TrimSpace lib (ToLower lib query)) ''for update''"
    by (intro Contains_normalized_ascii for_update_shape) simp_all
  from a have "DenySubstrings cfg = defaultDenySubstrings"
    using loadConfig_default_deny by blast
  then have "denySubstrings (main_handler lib d cfg) =
            [''into outfile'', ''into dumpfile'', ''for update'', ''lock in share mode'']"
    by (simp add: main_handler_def default_normalized)
  with c have "denied (TrimSpace lib (ToLower lib query)) (denySubstrings (main_handler lib d cfg))"
    by simp
  then show "\<not> isReadOnlyQuery lib query (denySubstrings (main_handler lib d cfg))"
    by (simp add: isReadOnlyQuery_def Let_def)
qed

theorem main_handler_deny_list_normalized_witness:
  "TrimSpace example_lib (ToLower example_lib ''  FOR Update '') = ''for update'' \<and>
   TrimSpace example_lib (ToLower example_lib ''select * from t for update'')
     = ''select * from t for update'' \<and>
   \<not> isReadOnlyQuery example_lib ''select * from t for update''
     (denySubstrings (main_handler example_lib example_db
        (example_config\<lparr>DenySubstrings := [''  FOR Update '']\<rparr>))) \<and>
   TrimSpace example_lib (ToLower example_lib ''   '') = [] \<and>
   denySubstrings (main_handler example_lib example_db
        (example_config\<lparr>DenySubstrings := ['' for update'', ''   '']\<rparr>)) =
   denySubstrings (main_handler example_lib example_db
        (example_config\<lparr>DenySubstrings := ['' for update'']\<rparr>)) \<and>
   loadConfig (Inr example_decoded) = Inr example_config \<and>
   denySubstrings example_handler =
     [''into outfile'', ''into dumpfile'', ''for update'', ''lock in share mode''] \<and>
   isASCII ''select id from t where (id = 1)for update'' \<and>
   Contains ''select id from t where (id = 1)for update'' ''for update'' \<and>
   \<not> Contains ''select id from t where (id = 1)for update'' '' for update'' \<and>
   \<not> isReadOnlyQuery example_lib ''select id from t where (id = 1)for update''
       (denySubstrings example_handler)"
proof -
  let ?cfg = "example_config\<lparr>DenySubstrings := [''  FOR Update '']\<rparr>"
  let ?q = "''select id from t where (id = 1)for update''"
  have n1: "TrimSpace example_lib (ToLower example_lib ''  FOR Update '') = ''for update''"
    by code_simp
  have n2: "TrimSpace example_lib (ToLower example_lib ''select * from t for update'')
     = ''select * from t for update''"
    by code_simp
  have n3: "TrimSpace example_lib (ToLower example_lib ''   '') = []"
    by code_simp
  have n4: "TrimSpace example_lib (ToLower example_lib ?q) = ?q"
    by code_simp
  have ld: "length (DenySubstrings example_decoded) = 0 \<and>
      loadConfig (Inr example_decoded) = Inr example_config"
    by (simp add: loadConfig_def example_decoded_def example_config_def Let_def)
  have asc: "isASCII ?q" by code_simp
  have c1: "Contains ?q ''for update''" by simp
  have c2: "\<not> Contains ?q '' for update''" by simp
  have h: "''  FOR Update '' \<in> set (DenySubstrings ?cfg) \<and>
      TrimSpace example_lib (ToLower example_lib ''  FOR Update '') \<noteq> [] \<and>
      Contains (TrimSpace example_lib (ToLower example_lib ''select * from t for update''))
        (TrimSpace example_lib (ToLower example_lib ''  FOR Update ''))"
    by (simp add: n1 n2)
  from main_handler_deny_list_normalized [of example_lib example_db ?cfg "''  FOR Update ''" "''select * from t for update''"] h
  have a: "\<not> isReadOnlyQuery example_lib ''select * from t for update''
     (denySubstrings (main_handler example_lib example_db ?cfg))"
    by blast
  from main_handler_deny_list_normalized [of example_lib example_db example_config "''   ''" _ "['' for update'']" "[]"] n3
  have b: "denySubstrings (main_handler example_lib example_db
        (example_config\<lparr>DenySubstrings := ['' for update'', ''   '']\<rparr>)) =
     denySubstrings (main_handler example_lib example_db
        (example_config\<lparr>DenySubstrings := ['' for update'']\<rparr>))"
    by (simp del: TrimSpace.simps)
  from main_handler_deny_list_normalized [of example_lib example_db example_config _ ?q _ _ example_decoded] ld asc c1
  have c: "denySubstrings (main_handler example_lib example_db example_config) =
       [''into outfile'', ''into dumpfile'', ''for update'', ''lock in share mode''] \<and>
     \<not> isReadOnlyQuery example_lib ?q
        (denySubstrings (main_handler example_lib example_db example_config))"
    by blast
  from n1 n2 n3 a b c ld asc c1 c2 show ?thesis
    unfolding example_handler_def by blast
qed

end
